theory Spec2Isabelle
  imports Complex_Main
begin

section \<open>Values, documents and requests\<close>

text \<open>
  The handlers of \<^verbatim>\<open>src/routes/employeeRoutes.js\<close> and \<^verbatim>\<open>src/routes/userRoutes.js\<close>
  work on JSON request bodies and on documents of a document database. A value is a
  JavaScript value as it occurs there: what \<^verbatim>\<open>express.json()\<close> parses, plus the results
  of \<^verbatim>\<open>Number(...)\<close> and \<^verbatim>\<open>new Date(...)\<close>. A finite number is a rational (every finite
  double is one); a date is its time in milliseconds since the epoch.
\<close>

datatype jsval =
    JUndefined
  | JNull
  | JBool bool
  | JNum rat
  | JNaN
  | JInfinity bool
  | JStr string
  | JDate int
  | JInvalidDate
  | JArr "jsval list"
  | JObj "(string \<times> jsval) list"

type_synonym doc = "(string \<times> jsval) list"

text \<open>Property access \<^verbatim>\<open>d.k\<close>: an absent property reads as \<^verbatim>\<open>undefined\<close>.\<close>

definition field :: "doc \<Rightarrow> string \<Rightarrow> jsval" where
  "field d k = (case map_of d k of None \<Rightarrow> JUndefined | Some v \<Rightarrow> v)"

text \<open>Property assignment \<^verbatim>\<open>d.k = v\<close>, and the object spread \<^verbatim>\<open>{...d, k: v}\<close>.\<close>

fun assign :: "string \<Rightarrow> jsval \<Rightarrow> doc \<Rightarrow> doc" where
  "assign k v [] = [(k, v)]"
| "assign k v ((k', v') # d) = (if k' = k then (k, v) # d else (k', v') # assign k v d)"

text \<open>The condition of a JavaScript \<^verbatim>\<open>if\<close>.\<close>

fun truthy :: "jsval \<Rightarrow> bool" where
  "truthy JUndefined = False"
| "truthy JNull = False"
| "truthy (JBool b) = b"
| "truthy (JNum n) = (n \<noteq> 0)"
| "truthy JNaN = False"
| "truthy (JStr s) = (s \<noteq> [])"
| "truthy _ = True"

datatype location = Body | Params | Query

record request =
  body :: doc
  params :: doc
  query :: doc

fun select :: "location \<Rightarrow> request \<Rightarrow> doc" where
  "select Body req = body req"
| "select Params req = params req"
| "select Query req = query req"

record response =
  status :: nat
  json :: jsval

section \<open>The libraries the handlers call\<close>

text \<open>
  The handlers call express-validator, the JavaScript built-ins \<^verbatim>\<open>Number\<close> and
  \<^verbatim>\<open>Date\<close>, the \<^verbatim>\<open>ObjectId\<close> constructor of the database driver and \<^verbatim>\<open>bcrypt.compare\<close>.
  None of them is code of this repository, so each is a parameter of the model:
  \<^item> \<open>check L v x\<close>: the validator \<open>v\<close> of express-validator accepts the field value \<open>x\<close>
    (\<open>JUndefined\<close> for an absent field);
  \<^item> \<open>js_Number L\<close> and \<open>js_Date L\<close>: \<^verbatim>\<open>Number(x)\<close> and \<^verbatim>\<open>new Date(x)\<close>;
  \<^item> \<open>new_ObjectId L x\<close>: \<^verbatim>\<open>new ObjectId(x)\<close>, \<open>None\<close> where the constructor throws; an
    identifier is represented by its string form, which is what \<^verbatim>\<open>toString()\<close> returns;
  \<^item> \<open>bcrypt_hash L p\<close>: the hash \<^verbatim>\<open>bcrypt.hash(p, 10)\<close> of the credential \<open>p\<close>, and
    \<open>bcrypt_compare L p h\<close>: the credential \<open>p\<close> verifies against the hash \<open>h\<close>;
  \<^item> \<open>query_operator L q\<close>: the meaning of a filter value that is an operator document
    (its first key starts with a dollar sign), \<open>None\<close> where the database refuses it;
  \<^item> \<open>set_paths L d u\<close>: the result of \<^verbatim>\<open>$set\<close> with field names that address a path or are
    reserved (empty, with a dot or a NUL, or starting with a dollar sign), \<open>None\<close> where the
    database refuses the update.
\<close>

datatype validator = NotEmpty | IsEmail | IsNumeric | IsISO8601 | IsMongoId | IsLength nat

record library =
  check :: "validator \<Rightarrow> jsval \<Rightarrow> bool"
  js_Number :: "jsval \<Rightarrow> jsval"
  js_Date :: "jsval \<Rightarrow> jsval"
  new_ObjectId :: "jsval \<Rightarrow> string option"
  bcrypt_hash :: "string \<Rightarrow> string"
  bcrypt_compare :: "string \<Rightarrow> string \<Rightarrow> bool"
  query_operator :: "jsval \<Rightarrow> (jsval \<Rightarrow> bool) option"
  set_paths :: "doc \<Rightarrow> doc \<Rightarrow> doc option"

text \<open>
  The object-id shape: the string form of an identifier of the database is a string of 24
  hexadecimal digits.
\<close>

definition is_hex :: "char \<Rightarrow> bool" where
  "is_hex c = (c \<in> set ''0123456789abcdefABCDEF'')"

fun object_id_shape :: "jsval \<Rightarrow> bool" where
  "object_id_shape (JStr s) = (length s = 24 \<and> list_all is_hex s)"
| "object_id_shape x = False"

section \<open>Validation chains\<close>

text \<open>
  A chain \<^verbatim>\<open>body('f').optional().isEmail().withMessage('m')\<close> is
  \<open>Chain Body ''f'' True IsEmail ''m''\<close>. Every chain of the source has one validator.
  \<^verbatim>\<open>optional()\<close> skips the validator when the field is \<^verbatim>\<open>undefined\<close>.
\<close>

datatype chain = Chain location string bool validator string

fun msg :: "chain \<Rightarrow> string" where
  "msg (Chain loc f opt v m) = m"

fun chain_ok :: "library \<Rightarrow> request \<Rightarrow> chain \<Rightarrow> bool" where
  "chain_ok L req (Chain loc f opt v m) =
     (let x = field (select loc req) f
      in if opt \<and> x = JUndefined then True else check L v x)"

text \<open>
  \<^verbatim>\<open>validationResult(req).array()\<close> mapped to the messages: the chains run as middleware in
  the order of the route's argument list, and each failing chain adds its error. The
  handlers ask only whether the list is empty and for the message of its first element.
\<close>

definition validationResult :: "library \<Rightarrow> request \<Rightarrow> chain list \<Rightarrow> string list" where
  "validationResult L req cs = map msg (filter (\<lambda>c. \<not> chain_ok L req c) cs)"

definition validateEmployee :: "chain list" where
  "validateEmployee =
    [Chain Body ''first_name'' False NotEmpty ''First name is required'',
     Chain Body ''last_name'' False NotEmpty ''Last name is required'',
     Chain Body ''email'' False IsEmail ''Valid email is required'',
     Chain Body ''position'' False NotEmpty ''Position is required'',
     Chain Body ''salary'' False IsNumeric ''Salary must be a number'',
     Chain Body ''date_of_joining'' False IsISO8601 ''Valid date is required'',
     Chain Body ''department'' False NotEmpty ''Department is required'']"

text \<open>The seven employee fields are the fields of these chains.\<close>

fun chain_field :: "chain \<Rightarrow> string" where
  "chain_field (Chain loc f opt v m) = f"

definition employee_fields :: "string list" where
  "employee_fields = map chain_field validateEmployee"

text \<open>The create request of the round-trip property of the specification.\<close>

definition round_trip_body :: doc where
  "round_trip_body =
     [(''first_name'', JStr ''A''), (''last_name'', JStr ''B''), (''email'', JStr ''a@b.com''),
      (''position'', JStr ''Eng''), (''salary'', JStr ''50000''),
      (''date_of_joining'', JStr ''2023-01-01''), (''department'', JStr ''Tech'')]"

definition validateEmployeeUpdate :: "chain list" where
  "validateEmployeeUpdate =
    [Chain Body ''first_name'' True NotEmpty ''First name cannot be empty'',
     Chain Body ''last_name'' True NotEmpty ''Last name cannot be empty'',
     Chain Body ''email'' True IsEmail ''Valid email is required'',
     Chain Body ''position'' True NotEmpty ''Position cannot be empty'',
     Chain Body ''salary'' True IsNumeric ''Salary must be a number'',
     Chain Body ''date_of_joining'' True IsISO8601 ''Valid date is required'',
     Chain Body ''department'' True NotEmpty ''Department cannot be empty'']"

definition validateObjectId :: "chain list" where
  "validateObjectId = [Chain Params ''eid'' False IsMongoId ''Invalid employee ID'']"

definition validateQueryId :: "chain list" where
  "validateQueryId = [Chain Query ''eid'' False IsMongoId ''Invalid employee ID'']"

definition validateSignup :: "chain list" where
  "validateSignup =
    [Chain Body ''username'' False NotEmpty ''Username is required'',
     Chain Body ''email'' False IsEmail ''Valid email is required'',
     Chain Body ''password'' False (IsLength 6) ''Password must be at least 6 characters'']"

definition validateLogin :: "chain list" where
  "validateLogin =
    [Chain Body ''email'' False IsEmail ''Valid email is required'',
     Chain Body ''password'' False NotEmpty ''Password is required'']"

section \<open>The document store\<close>

text \<open>
  A collection is the list of its documents in natural order, each with its \<^verbatim>\<open>_id\<close>.
  The state of the database is its two collections and the log of the operations it has
  been sent, so that "the request never reaches the store" is a statement about the log.
\<close>

datatype collection = Users | Employees

datatype dbop = FindOne collection | InsertOne collection | UpdateOne collection
  | DeleteOne collection

type_synonym coll = "(string \<times> doc) list"

record db =
  users :: coll
  employees :: coll
  oplog :: "dbop list"

datatype error = MongoError | BcryptError

fun docs :: "db \<Rightarrow> collection \<Rightarrow> coll" where
  "docs s Users = users s"
| "docs s Employees = employees s"

fun set_docs :: "collection \<Rightarrow> coll \<Rightarrow> db \<Rightarrow> db" where
  "set_docs Users c s = s\<lparr>users := c\<rparr>"
| "set_docs Employees c s = s\<lparr>employees := c\<rparr>"

definition logged :: "dbop \<Rightarrow> db \<Rightarrow> db" where
  "logged op s = s\<lparr>oplog := oplog s @ [op]\<rparr>"

subsection \<open>Filters\<close>

text \<open>
  The three filters of the source: \<^verbatim>\<open>{ _id: id }\<close>, \<^verbatim>\<open>{ k: q }\<close> and
  \<^verbatim>\<open>{ $or: [f, g] }\<close>. A filter value that is not an operator document is matched by
  equality: the stored value equals it or is an array with it as an element, and
  \<^verbatim>\<open>null\<close> also matches an absent field.
\<close>

datatype filter = ById string | ByField string jsval | Either filter filter

fun is_operator :: "jsval \<Rightarrow> bool" where
  "is_operator (JObj ((k, v) # kvs)) = (case k of [] \<Rightarrow> False | c # cs \<Rightarrow> c = CHR ''$'')"
| "is_operator _ = False"

definition nullish :: "jsval \<Rightarrow> bool" where
  "nullish v = (v = JNull \<or> v = JUndefined)"

definition eq_match :: "jsval \<Rightarrow> jsval \<Rightarrow> bool" where
  "eq_match q x =
     (if nullish q
      then nullish x \<or> (case x of JArr xs \<Rightarrow> list_ex nullish xs | _ \<Rightarrow> False)
      else x = q \<or> (case x of JArr xs \<Rightarrow> q \<in> set xs | _ \<Rightarrow> False))"

definition field_pred :: "library \<Rightarrow> jsval \<Rightarrow> (jsval \<Rightarrow> bool) option" where
  "field_pred L q = (if is_operator q then query_operator L q else Some (eq_match q))"

fun compile :: "library \<Rightarrow> filter \<Rightarrow> (string \<times> doc \<Rightarrow> bool) option" where
  "compile L (ById i) = Some (\<lambda>(j, d). j = i)"
| "compile L (ByField k q) =
     (case field_pred L q of
        None \<Rightarrow> None
      | Some p \<Rightarrow> Some (\<lambda>(j, d). p (field d k)))"
| "compile L (Either f g) =
     (case compile L f of
        None \<Rightarrow> None
      | Some p \<Rightarrow>
         (case compile L g of
            None \<Rightarrow> None
          | Some r \<Rightarrow> Some (\<lambda>x. p x \<or> r x)))"

text \<open>
  The filter of the login lookup, \<^verbatim>\<open>{ $or: [{ email }, { username: email }] }\<close>, as a
  predicate on a stored user, for a value \<open>e\<close> that is not an operator document.
\<close>

definition user_matches :: "jsval \<Rightarrow> string \<times> doc \<Rightarrow> bool" where
  "user_matches e = (\<lambda>(j, u). eq_match e (field u ''email'') \<or> eq_match e (field u ''username''))"

subsection \<open>Operations\<close>

definition findOne ::
  "library \<Rightarrow> collection \<Rightarrow> filter \<Rightarrow> db \<Rightarrow> (error + (string \<times> doc) option) \<times> db" where
  "findOne L c f s =
     (case compile L f of
        None \<Rightarrow> (Inl MongoError, logged (FindOne c) s)
      | Some p \<Rightarrow> (Inr (find p (docs s c)), logged (FindOne c) s))"

text \<open>
  \<^verbatim>\<open>insertOne\<close>: the driver gives the document a new identifier \<open>i\<close>; the database
  refuses a second document with the same identifier.
\<close>

definition insertOne :: "collection \<Rightarrow> string \<Rightarrow> doc \<Rightarrow> db \<Rightarrow> (error + string) \<times> db" where
  "insertOne c i d s =
     (if i \<in> fst ` set (docs s c) then (Inl MongoError, logged (InsertOne c) s)
      else (Inr i, logged (InsertOne c) (set_docs c (docs s c @ [(i, d)]) s)))"

text \<open>
  \<^verbatim>\<open>$set\<close>: the identifier is immutable, so an update document with the key \<^verbatim>\<open>_id\<close> is
  refused; plain field names are assigned one by one; anything else is left to the
  database (\<open>set_paths\<close>).
\<close>

definition plain :: "string \<Rightarrow> bool" where
  "plain k = (k \<noteq> [] \<and> CHR ''.'' \<notin> set k \<and> CHR 0x00 \<notin> set k \<and> hd k \<noteq> CHR ''$''
     \<and> k \<noteq> ''_id'')"

definition set_all :: "doc \<Rightarrow> doc \<Rightarrow> doc" where
  "set_all u d = foldr (\<lambda>(k, v). assign k v) u d"

definition apply_set :: "library \<Rightarrow> doc \<Rightarrow> doc \<Rightarrow> error + doc" where
  "apply_set L u d =
     (if ''_id'' \<in> fst ` set u then Inl MongoError
      else if list_all plain (map fst u) then Inr (set_all u d)
      else (case set_paths L d u of None \<Rightarrow> Inl MongoError | Some d' \<Rightarrow> Inr d'))"

fun update_first :: "string \<Rightarrow> (doc \<Rightarrow> error + doc) \<Rightarrow> coll \<Rightarrow> error + coll" where
  "update_first i f [] = Inr []"
| "update_first i f ((j, d) # c) =
     (if j = i then (case f d of Inl e \<Rightarrow> Inl e | Inr d' \<Rightarrow> Inr ((j, d') # c))
      else (case update_first i f c of Inl e \<Rightarrow> Inl e | Inr c' \<Rightarrow> Inr ((j, d) # c')))"

definition updateOne ::
  "library \<Rightarrow> collection \<Rightarrow> string \<Rightarrow> doc \<Rightarrow> db \<Rightarrow> (error + unit) \<times> db" where
  "updateOne L c i u s =
     (case update_first i (apply_set L u) (docs s c) of
        Inl e \<Rightarrow> (Inl e, logged (UpdateOne c) s)
      | Inr c' \<Rightarrow> (Inr (), logged (UpdateOne c) (set_docs c c' s)))"

fun delete_first :: "string \<Rightarrow> coll \<Rightarrow> coll" where
  "delete_first i [] = []"
| "delete_first i ((j, d) # c) = (if j = i then c else (j, d) # delete_first i c)"

definition deleteOne :: "collection \<Rightarrow> string \<Rightarrow> db \<Rightarrow> unit \<times> db" where
  "deleteOne c i s = ((), logged (DeleteOne c) (set_docs c (delete_first i (docs s c)) s))"

section \<open>The handlers\<close>

definition error_body :: "string \<Rightarrow> jsval" where
  "error_body m = JObj [(''status'', JBool False), (''message'', JStr m)]"

definition message_body :: "string \<Rightarrow> jsval" where
  "message_body m = JObj [(''message'', JStr m)]"

text \<open>The \<^verbatim>\<open>catch\<close> block of every handler.\<close>

definition internal_error :: response where
  "internal_error = \<lparr>status = 500, json = error_body ''Internal server error''\<rparr>"

definition formattedEmployee :: "string \<Rightarrow> doc \<Rightarrow> jsval" where
  "formattedEmployee i employee =
     JObj [(''employee_id'', JStr i),
           (''first_name'', field employee ''first_name''),
           (''last_name'', field employee ''last_name''),
           (''email'', field employee ''email''),
           (''position'', field employee ''position''),
           (''salary'', field employee ''salary''),
           (''date_of_joining'', field employee ''date_of_joining''),
           (''department'', field employee ''department'')]"

subsection \<open>\<^verbatim>\<open>POST /employees\<close>\<close>

text \<open>
  \<open>t1\<close> and \<open>t2\<close> are the results of the two \<^verbatim>\<open>new Date()\<close> calls, \<open>i\<close> the identifier
  the driver generates for the new document.
\<close>

definition post_employees ::
  "library \<Rightarrow> jsval \<Rightarrow> jsval \<Rightarrow> string \<Rightarrow> request \<Rightarrow> db \<Rightarrow> response \<times> db" where
  "post_employees L t1 t2 i req s =
     (case validationResult L req validateEmployee of
        m # ms \<Rightarrow> (\<lparr>status = 400, json = error_body m\<rparr>, s)
      | [] \<Rightarrow>
         (let first_name = field (body req) ''first_name'';
              last_name = field (body req) ''last_name'';
              email = field (body req) ''email'';
              position = field (body req) ''position'';
              salary = field (body req) ''salary'';
              date_of_joining = field (body req) ''date_of_joining'';
              department = field (body req) ''department''
          in case findOne L Employees (ByField ''email'' email) s of
               (Inl e, s1) \<Rightarrow> (internal_error, s1)
             | (Inr (Some existingEmployee), s1) \<Rightarrow>
                 (\<lparr>status = 400, json = error_body ''Employee already exists with this email''\<rparr>,
                  s1)
             | (Inr None, s1) \<Rightarrow>
                 (let newEmployee =
                        [(''first_name'', first_name),
                         (''last_name'', last_name),
                         (''email'', email),
                         (''position'', position),
                         (''salary'', js_Number L salary),
                         (''date_of_joining'', js_Date L date_of_joining),
                         (''department'', department),
                         (''created_at'', t1),
                         (''updated_at'', t2)]
                  in case insertOne Employees i newEmployee s1 of
                       (Inl e, s2) \<Rightarrow> (internal_error, s2)
                     | (Inr insertedId, s2) \<Rightarrow>
                         (\<lparr>status = 201,
                           json = JObj [(''message'', JStr ''Employee created successfully.''),
                                        (''employee_id'', JStr insertedId)]\<rparr>,
                          s2))))"

subsection \<open>\<^verbatim>\<open>GET /employees/:eid\<close>\<close>

definition get_employees_eid :: "library \<Rightarrow> request \<Rightarrow> db \<Rightarrow> response \<times> db" where
  "get_employees_eid L req s =
     (case validationResult L req validateObjectId of
        m # ms \<Rightarrow> (\<lparr>status = 400, json = error_body m\<rparr>, s)
      | [] \<Rightarrow>
         (case new_ObjectId L (field (params req) ''eid'') of
            None \<Rightarrow> (internal_error, s)
          | Some i \<Rightarrow>
             (case findOne L Employees (ById i) s of
                (Inl e, s1) \<Rightarrow> (internal_error, s1)
              | (Inr None, s1) \<Rightarrow>
                  (\<lparr>status = 404, json = error_body ''Employee not found''\<rparr>, s1)
              | (Inr (Some (j, employee)), s1) \<Rightarrow>
                  (\<lparr>status = 200, json = formattedEmployee j employee\<rparr>, s1))))"

subsection \<open>\<^verbatim>\<open>PUT /employees/:eid\<close>\<close>

text \<open>\<open>t\<close> is the result of \<^verbatim>\<open>new Date()\<close>.\<close>

definition updateData :: "library \<Rightarrow> jsval \<Rightarrow> doc \<Rightarrow> doc" where
  "updateData L t b =
     (let u0 = assign ''updated_at'' t b;
          u1 = (if truthy (field u0 ''salary'')
                then assign ''salary'' (js_Number L (field u0 ''salary'')) u0 else u0);
          u2 = (if truthy (field u1 ''date_of_joining'')
                then assign ''date_of_joining'' (js_Date L (field u1 ''date_of_joining'')) u1
                else u1)
      in u2)"

definition put_employees_eid :: "library \<Rightarrow> jsval \<Rightarrow> request \<Rightarrow> db \<Rightarrow> response \<times> db" where
  "put_employees_eid L t req s =
     (case validationResult L req (validateObjectId @ validateEmployeeUpdate) of
        m # ms \<Rightarrow> (\<lparr>status = 400, json = error_body m\<rparr>, s)
      | [] \<Rightarrow>
         (case new_ObjectId L (field (params req) ''eid'') of
            None \<Rightarrow> (internal_error, s)
          | Some i \<Rightarrow>
             (case findOne L Employees (ById i) s of
                (Inl e, s1) \<Rightarrow> (internal_error, s1)
              | (Inr None, s1) \<Rightarrow>
                  (\<lparr>status = 404, json = error_body ''Employee not found''\<rparr>, s1)
              | (Inr (Some existingEmployee), s1) \<Rightarrow>
                  (case updateOne L Employees i (updateData L t (body req)) s1 of
                     (Inl e, s2) \<Rightarrow> (internal_error, s2)
                   | (Inr u, s2) \<Rightarrow>
                       (\<lparr>status = 200,
                         json = message_body ''Employee details updated successfully.''\<rparr>,
                        s2)))))"

subsection \<open>\<^verbatim>\<open>DELETE /employees?eid=\<close>\<close>

definition delete_employees :: "library \<Rightarrow> request \<Rightarrow> db \<Rightarrow> response \<times> db" where
  "delete_employees L req s =
     (case validationResult L req validateQueryId of
        m # ms \<Rightarrow> (\<lparr>status = 400, json = error_body m\<rparr>, s)
      | [] \<Rightarrow>
         (case new_ObjectId L (field (query req) ''eid'') of
            None \<Rightarrow> (internal_error, s)
          | Some i \<Rightarrow>
             (case findOne L Employees (ById i) s of
                (Inl e, s1) \<Rightarrow> (internal_error, s1)
              | (Inr None, s1) \<Rightarrow>
                  (\<lparr>status = 404, json = error_body ''Employee not found''\<rparr>, s1)
              | (Inr (Some existingEmployee), s1) \<Rightarrow>
                  (case deleteOne Employees i s1 of
                     (u, s2) \<Rightarrow>
                       (\<lparr>status = 200, json = message_body ''Employee deleted successfully.''\<rparr>,
                        s2)))))"

subsection \<open>\<^verbatim>\<open>POST /signup\<close>\<close>

text \<open>
  \<^verbatim>\<open>bcrypt.hash\<close> rejects (throws) unless the data is a string. \<open>t1\<close> and \<open>t2\<close> are
  the results of the two \<^verbatim>\<open>new Date()\<close> calls, \<open>i\<close> the identifier the driver generates.
\<close>

definition hash_password :: "library \<Rightarrow> jsval \<Rightarrow> error + string" where
  "hash_password L password =
     (case password of
        JStr p \<Rightarrow> Inr (bcrypt_hash L p)
      | _ \<Rightarrow> Inl BcryptError)"

definition signup ::
  "library \<Rightarrow> jsval \<Rightarrow> jsval \<Rightarrow> string \<Rightarrow> request \<Rightarrow> db \<Rightarrow> response \<times> db" where
  "signup L t1 t2 i req s =
     (case validationResult L req validateSignup of
        m # ms \<Rightarrow> (\<lparr>status = 400, json = error_body m\<rparr>, s)
      | [] \<Rightarrow>
         (let username = field (body req) ''username'';
              email = field (body req) ''email'';
              password = field (body req) ''password''
          in case findOne L Users (Either (ByField ''email'' email) (ByField ''username'' username))
                    s of
               (Inl e, s1) \<Rightarrow> (internal_error, s1)
             | (Inr (Some existingUser), s1) \<Rightarrow>
                 (\<lparr>status = 400,
                   json = error_body ''User already exists with this email or username''\<rparr>,
                  s1)
             | (Inr None, s1) \<Rightarrow>
                 (case hash_password L password of
                    Inl e \<Rightarrow> (internal_error, s1)
                  | Inr hashedPassword \<Rightarrow>
                      (let newUser =
                             [(''username'', username),
                              (''email'', email),
                              (''password'', JStr hashedPassword),
                              (''created_at'', t1),
                              (''updated_at'', t2)]
                       in case insertOne Users i newUser s1 of
                            (Inl e, s2) \<Rightarrow> (internal_error, s2)
                          | (Inr insertedId, s2) \<Rightarrow>
                              (\<lparr>status = 201,
                                json = JObj [(''message'', JStr ''User created successfully.''),
                                             (''user_id'', JStr insertedId)]\<rparr>,
                               s2)))))"

subsection \<open>\<^verbatim>\<open>POST /login\<close>\<close>

text \<open>
  \<^verbatim>\<open>bcrypt.compare\<close> rejects (throws) unless both the data and the hash are strings.
\<close>

definition compare :: "library \<Rightarrow> jsval \<Rightarrow> jsval \<Rightarrow> error + bool" where
  "compare L password hash =
     (case (password, hash) of
        (JStr p, JStr h) \<Rightarrow> Inr (bcrypt_compare L p h)
      | _ \<Rightarrow> Inl BcryptError)"

definition login :: "library \<Rightarrow> request \<Rightarrow> db \<Rightarrow> response \<times> db" where
  "login L req s =
     (case validationResult L req validateLogin of
        m # ms \<Rightarrow> (\<lparr>status = 400, json = error_body m\<rparr>, s)
      | [] \<Rightarrow>
         (let email = field (body req) ''email'';
              password = field (body req) ''password''
          in case findOne L Users (Either (ByField ''email'' email) (ByField ''username'' email)) s of
               (Inl e, s1) \<Rightarrow> (internal_error, s1)
             | (Inr None, s1) \<Rightarrow>
                 (\<lparr>status = 401, json = error_body ''Invalid Username and password''\<rparr>, s1)
             | (Inr (Some (j, user)), s1) \<Rightarrow>
                 (case compare L password (field user ''password'') of
                    Inl e \<Rightarrow> (internal_error, s1)
                  | Inr False \<Rightarrow>
                      (\<lparr>status = 401, json = error_body ''Invalid Username and password''\<rparr>, s1)
                  | Inr True \<Rightarrow>
                      (\<lparr>status = 200,
                        json = JObj [(''message'', JStr ''Login successful.''),
                                     (''jwt_token'', JStr ''Optional implementation'')]\<rparr>,
                       s1))))"

section \<open>A concrete instance of the libraries\<close>

text \<open>
  The examples at concrete requests need a library to run. \<open>sample_library\<close> is a small one:
  it decides strings by simple rules, a number is not empty for it, and it rejects every
  other value. Its identifier check is the one of the validator library: a string of 24
  characters that is hexadecimal, where a hexadecimal string may start with \<^verbatim>\<open>0x\<close> or
  \<^verbatim>\<open>0h\<close>; its \<^verbatim>\<open>ObjectId\<close> constructor takes a string of 24 hexadecimal digits and
  throws on anything else. It agrees with the real libraries on the values the examples
  evaluate it on.
\<close>

definition is_digit :: "char \<Rightarrow> bool" where
  "is_digit c = (c \<in> set ''0123456789'')"

definition sample_hexadecimal :: "string \<Rightarrow> bool" where
  "sample_hexadecimal s =
     ((s \<noteq> [] \<and> list_all is_hex s)
      \<or> (take 2 s \<in> set [''0x'', ''0X'', ''0h'', ''0H''] \<and> drop 2 s \<noteq> []
          \<and> list_all is_hex (drop 2 s)))"

fun lower_hex :: "char \<Rightarrow> char" where
  "lower_hex c =
     (if c = CHR ''A'' then CHR ''a'' else if c = CHR ''B'' then CHR ''b''
      else if c = CHR ''C'' then CHR ''c'' else if c = CHR ''D'' then CHR ''d''
      else if c = CHR ''E'' then CHR ''e'' else if c = CHR ''F'' then CHR ''f'' else c)"

definition decimal :: "string \<Rightarrow> nat" where
  "decimal s = foldl (\<lambda>a c. 10 * a + (of_char c - 48)) 0 s"

definition sample_email :: "string \<Rightarrow> bool" where
  "sample_email s =
     (let name = takeWhile (\<lambda>c. c \<noteq> CHR ''@'') s;
          rest = dropWhile (\<lambda>c. c \<noteq> CHR ''@'') s
      in name \<noteq> [] \<and> rest \<noteq> [] \<and> CHR ''@'' \<notin> set (tl rest) \<and> CHR ''.'' \<in> set (tl rest))"

definition sample_iso_date :: "string \<Rightarrow> bool" where
  "sample_iso_date s =
     (length s = 10 \<and> s ! 4 = CHR ''-'' \<and> s ! 7 = CHR ''-''
      \<and> list_all is_digit (take 4 s) \<and> list_all is_digit (take 2 (drop 5 s))
      \<and> list_all is_digit (drop 8 s))"

text \<open>Days from 1970-01-01 to a date of the proleptic Gregorian calendar.\<close>

definition days_from_civil :: "int \<Rightarrow> int \<Rightarrow> int \<Rightarrow> int" where
  "days_from_civil y m d =
     (let y' = (if m \<le> 2 then y - 1 else y);
          era = y' div 400;
          yoe = y' - era * 400;
          doy = (153 * (if m > 2 then m - 3 else m + 9) + 2) div 5 + d - 1;
          doe = yoe * 365 + yoe div 4 - yoe div 100 + doy
      in era * 146097 + doe - 719468)"

fun sample_check :: "validator \<Rightarrow> jsval \<Rightarrow> bool" where
  "sample_check NotEmpty (JStr s) = (s \<noteq> [])"
| "sample_check NotEmpty (JNum n) = True"
| "sample_check IsEmail (JStr s) = sample_email s"
| "sample_check IsNumeric (JStr s) = (s \<noteq> [] \<and> list_all is_digit s)"
| "sample_check IsISO8601 (JStr s) = sample_iso_date s"
| "sample_check IsMongoId (JStr s) = (sample_hexadecimal s \<and> length s = 24)"
| "sample_check (IsLength n) (JStr s) = (n \<le> length s)"
| "sample_check v x = False"

fun sample_Number :: "jsval \<Rightarrow> jsval" where
  "sample_Number (JStr s) =
     (if s \<noteq> [] \<and> list_all is_digit s then JNum (of_nat (decimal s)) else JNaN)"
| "sample_Number (JNum n) = JNum n"
| "sample_Number x = JNaN"

fun sample_Date :: "jsval \<Rightarrow> jsval" where
  "sample_Date (JStr s) =
     (if sample_iso_date s
      then JDate (days_from_civil (int (decimal (take 4 s))) (int (decimal (take 2 (drop 5 s))))
                    (int (decimal (drop 8 s))) * 86400000)
      else JInvalidDate)"
| "sample_Date x = JInvalidDate"

fun sample_ObjectId :: "jsval \<Rightarrow> string option" where
  "sample_ObjectId (JStr s) =
     (if length s = 24 \<and> list_all is_hex s then Some (map lower_hex s) else None)"
| "sample_ObjectId x = None"

definition sample_library :: library where
  "sample_library =
     \<lparr>check = sample_check,
      js_Number = sample_Number,
      js_Date = sample_Date,
      new_ObjectId = sample_ObjectId,
      bcrypt_hash = (\<lambda>p. ''hashed:'' @ p),
      bcrypt_compare = (\<lambda>p h. h = ''hashed:'' @ p),
      query_operator = (\<lambda>q. None),
      set_paths = (\<lambda>d u. None)\<rparr>"

text \<open>A store with one user and two employees, and the identifiers used in the examples.\<close>

definition ann_id :: string where
  "ann_id = ''507f1f77bcf86cd799439011''"

definition bob_id :: string where
  "bob_id = ''507f1f77bcf86cd799439012''"

definition ann :: doc where
  "ann = [(''first_name'', JStr ''Ann''), (''last_name'', JStr ''Lee''),
          (''email'', JStr ''ann@example.com''), (''position'', JStr ''Eng''),
          (''salary'', JNum 70000), (''date_of_joining'', JDate 1672531200000),
          (''department'', JStr ''Tech''), (''created_at'', JDate 1700000000000),
          (''updated_at'', JDate 1700000000000)]"

definition bob :: doc where
  "bob = [(''first_name'', JStr ''Bob''), (''last_name'', JStr ''Ray''),
          (''email'', JStr ''bob@example.com''), (''position'', JStr ''Ops''),
          (''salary'', JNum 60000), (''date_of_joining'', JDate 1672531200000),
          (''department'', JStr ''Tech''), (''created_at'', JDate 1700000000000),
          (''updated_at'', JDate 1700000000000)]"

definition alice :: doc where
  "alice = [(''username'', JStr ''alice''), (''email'', JStr ''alice@example.com''),
            (''password'', JStr ''hashed:secret''), (''created_at'', JDate 1700000000000),
            (''updated_at'', JDate 1700000000000)]"

text \<open>The username of \<open>carol\<close> has the form of an email address.\<close>

definition carol :: doc where
  "carol = [(''username'', JStr ''carol@example.com''), (''email'', JStr ''c.jones@example.org''),
            (''password'', JStr ''hashed:pass1234''), (''created_at'', JDate 1700000000000),
            (''updated_at'', JDate 1700000000000)]"

definition alice_id :: string where
  "alice_id = ''64b7f0c2a1d3e4f5a6b7c8d9''"

definition carol_id :: string where
  "carol_id = ''64b7f0c2a1d3e4f5a6b7c8da''"

definition new_id :: string where
  "new_id = ''507f1f77bcf86cd799439013''"

definition sample_db :: db where
  "sample_db = \<lparr>users = [(alice_id, alice), (carol_id, carol)],
                employees = [(ann_id, ann), (bob_id, bob)],
                oplog = []\<rparr>"

text \<open>Requests of the examples: three updates of \<open>ann\<close>, a delete, and a login.\<close>

definition promote :: request where
  "promote = \<lparr>body = [(''position'', JStr ''Lead''), (''salary'', JStr ''80000'')],
              params = [(''eid'', JStr ann_id)], query = []\<rparr>"

definition with_id_key :: request where
  "with_id_key = \<lparr>body = [(''_id'', JStr ''x''), (''note'', JStr ''hi'')],
                  params = [(''eid'', JStr ann_id)], query = []\<rparr>"

definition with_note :: request where
  "with_note = \<lparr>body = [(''note'', JStr ''hi''), (''salary'', JStr ''80000''),
                        (''created_at'', JStr ''never'')],
                params = [(''eid'', JStr ann_id)], query = []\<rparr>"

definition delete_ann :: request where
  "delete_ann = \<lparr>body = [], params = [], query = [(''eid'', JStr ann_id)]\<rparr>"

definition login_carol :: request where
  "login_carol = \<lparr>body = [(''email'', JStr ''carol@example.com''), (''password'', JStr ''pass1234'')],
                  params = [], query = []\<rparr>"

text \<open>
  Two logins with the number 123456 as credential, one for an email that is not stored and
  one for the email of \<open>alice\<close>.
\<close>

definition login_ghost_numeric :: request where
  "login_ghost_numeric = \<lparr>body = [(''email'', JStr ''ghost@example.com''), (''password'', JNum 123456)],
                          params = [], query = []\<rparr>"

definition login_alice_numeric :: request where
  "login_alice_numeric = \<lparr>body = [(''email'', JStr ''alice@example.com''), (''password'', JNum 123456)],
                          params = [], query = []\<rparr>"

text \<open>
  An identifier of 24 characters that is not a string of 24 hexadecimal digits, as path
  parameter and as query parameter.
\<close>

definition prefixed_id :: string where
  "prefixed_id = ''0x0000000000000000000000''"

definition with_prefixed_id :: request where
  "with_prefixed_id = \<lparr>body = [], params = [(''eid'', JStr prefixed_id)],
                       query = [(''eid'', JStr prefixed_id)]\<rparr>"

text \<open>
  Two signups into an empty store: the email of \<open>dave\<close> is the username of \<open>erin\<close>. The
  store after them, and a login of each with that value.
\<close>

definition empty_db :: db where
  "empty_db = \<lparr>users = [], employees = [], oplog = []\<rparr>"

definition dave_id :: string where
  "dave_id = ''64b7f0c2a1d3e4f5a6b7c8e1''"

definition erin_id :: string where
  "erin_id = ''64b7f0c2a1d3e4f5a6b7c8e2''"

definition signup_dave :: request where
  "signup_dave = \<lparr>body = [(''username'', JStr ''dave''), (''email'', JStr ''shared@example.com''),
                         (''password'', JStr ''davepass'')],
                  params = [], query = []\<rparr>"

definition signup_erin :: request where
  "signup_erin = \<lparr>body = [(''username'', JStr ''shared@example.com''),
                         (''email'', JStr ''erin@example.org''), (''password'', JStr ''erinpass'')],
                  params = [], query = []\<rparr>"

definition dave :: doc where
  "dave = [(''username'', JStr ''dave''), (''email'', JStr ''shared@example.com''),
           (''password'', JStr ''hashed:davepass''), (''created_at'', JDate 1700000000001),
           (''updated_at'', JDate 1700000000002)]"

definition erin :: doc where
  "erin = [(''username'', JStr ''shared@example.com''), (''email'', JStr ''erin@example.org''),
           (''password'', JStr ''hashed:erinpass''), (''created_at'', JDate 1700000000003),
           (''updated_at'', JDate 1700000000004)]"

definition after_signups :: db where
  "after_signups =
     snd (signup sample_library (JDate 1700000000003) (JDate 1700000000004) erin_id signup_erin
       (snd (signup sample_library (JDate 1700000000001) (JDate 1700000000002) dave_id signup_dave
          empty_db)))"

definition login_erin :: request where
  "login_erin = \<lparr>body = [(''email'', JStr ''shared@example.com''), (''password'', JStr ''erinpass'')],
                 params = [], query = []\<rparr>"

text \<open>A create request whose email is the one of the stored employee \<open>ann\<close>.\<close>

definition new_ann :: doc where
  "new_ann = [(''first_name'', JStr ''Anna''), (''last_name'', JStr ''Lind''),
              (''email'', JStr ''ann@example.com''), (''position'', JStr ''QA''),
              (''salary'', JStr ''65000''), (''date_of_joining'', JStr ''2024-02-01''),
              (''department'', JStr ''Tech'')]"


section \<open>Facts about documents, validation and the store\<close>

lemma map_of_assign: "map_of (assign k v d) = (map_of d)(k \<mapsto> v)"
  by (induction d) (auto simp: fun_eq_iff)

lemma field_assign: "field (assign k v d) k' = (if k' = k then v else field d k')"
  by (simp add: field_def map_of_assign)

lemma keys_assign: "fst ` set (assign k v d) = insert k (fst ` set d)"
proof (induction d)
  case Nil
  show ?case by simp
next
  case (Cons a d)
  obtain k' v' where a: "a = (k', v')" by (cases a)
  show ?case
  proof (cases "k' = k")
    case True
    then show ?thesis by (simp add: a)
  next
    case False
    then show ?thesis using Cons.IH by (simp add: a insert_commute)
  qed
qed

lemma map_of_set_all: "map_of (set_all u d) = map_of d ++ map_of u"
proof (induction u)
  case Nil
  show ?case by (simp add: set_all_def)
next
  case (Cons a u)
  obtain k v where a: "a = (k, v)" by (cases a)
  have "set_all (a # u) d = assign k v (set_all u d)"
    by (simp add: set_all_def a)
  then show ?case using Cons.IH
    by (auto simp: map_of_assign a fun_eq_iff map_add_def)
qed

lemma validationResult_Nil:
  "validationResult L req cs = [] \<longleftrightarrow> (\<forall>c\<in>set cs. chain_ok L req c)"
  by (auto simp: validationResult_def filter_empty_conv)



lemma find_by_id:
  "find (\<lambda>(j, d). j = i) c = (case map_of c i of None \<Rightarrow> None | Some d \<Rightarrow> Some (i, d))"
  by (induction c) auto

lemma eq_match_refl: "eq_match q q"
  by (simp add: eq_match_def)

lemma sample_check_no_operator: "check sample_library v x \<Longrightarrow> \<not> is_operator x"
  by (cases x) (simp_all add: sample_library_def)

lemma delete_first_absent:
  "distinct (map fst c) \<Longrightarrow> map_of (delete_first i c) = (map_of c)(i := None)"
proof (induction c)
  case Nil
  show ?case by simp
next
  case (Cons a c)
  obtain j d where a: "a = (j, d)" by (cases a)
  show ?case
  proof (cases "j = i")
    case True
    with Cons.prems a have "i \<notin> fst ` set c" by auto
    then have "map_of c i = None" by (simp add: map_of_eq_None_iff)
    then show ?thesis using True a by (auto simp: fun_eq_iff)
  next
    case False
    then show ?thesis using Cons a by (auto simp: fun_eq_iff)
  qed
qed

lemma find_first:
  assumes "\<forall>y\<in>set pre. \<not> P y" and "P x"
  shows "find P (pre @ x # post) = Some x"
  using assms by (induction pre) auto

lemma findOne_by_id:
  "findOne L c (ById i) s
     = (Inr (case map_of (docs s c) i of None \<Rightarrow> None | Some d \<Rightarrow> Some (i, d)),
        logged (FindOne c) s)"
  by (simp add: findOne_def find_by_id)

lemma findOne_login:
  assumes "\<not> is_operator e"
  shows "findOne L Users (Either (ByField ''email'' e) (ByField ''username'' e)) s
     = (Inr (find (user_matches e) (users s)), logged (FindOne Users) s)"
proof -
  have "(\<lambda>x. (case x of (j, d) \<Rightarrow> eq_match e (field d ''email''))
            \<or> (case x of (j, d) \<Rightarrow> eq_match e (field d ''username''))) = user_matches e"
    by (auto simp: user_matches_def fun_eq_iff)
  then show ?thesis using assms
    by (simp add: findOne_def field_pred_def)
qed

lemma employee_fields_plain: "k \<in> set employee_fields \<Longrightarrow> plain k"
  by (auto simp: employee_fields_def validateEmployee_def plain_def)

lemma field_present:
  assumes "field d k \<noteq> JUndefined"
  shows "k \<in> fst ` set d"
proof -
  from assms obtain v where "map_of d k = Some v"
    by (cases "map_of d k") (auto simp: field_def)
  then have "(k, v) \<in> set d" by (rule map_of_SomeD)
  then show ?thesis by force
qed

lemma truthy_defined: "truthy v \<Longrightarrow> v \<noteq> JUndefined"
  by auto

lemma keys_coerce:
  "fst ` set (if truthy (field d k) then assign k v d else d) = fst ` set d"
proof (cases "truthy (field d k)")
  case True
  then have "field d k \<noteq> JUndefined" by (rule truthy_defined)
  then have "k \<in> fst ` set d" by (rule field_present)
  then have "insert k (fst ` set d) = fst ` set d" by (rule insert_absorb)
  with True show ?thesis by (simp only: if_True keys_assign)
next
  case False
  then show ?thesis by (simp only: if_False)
qed

lemma keys_updateData: "fst ` set (updateData L t b) = insert ''updated_at'' (fst ` set b)"
  unfolding updateData_def Let_def
  by (simp only: keys_coerce keys_assign)

lemma field_updateData:
  "field (updateData L t b) k =
     (if k = ''updated_at'' then t
      else if k = ''salary'' \<and> truthy (field b ''salary'') then js_Number L (field b ''salary'')
      else if k = ''date_of_joining'' \<and> truthy (field b ''date_of_joining'')
           then js_Date L (field b ''date_of_joining'')
      else field b k)"
  by (simp add: updateData_def Let_def field_assign)

lemma map_of_updateData_None:
  "k \<notin> fst ` set b \<Longrightarrow> k \<noteq> ''updated_at'' \<Longrightarrow> map_of (updateData L t b) k = None"
  by (simp add: map_of_eq_None_iff keys_updateData)

lemma apply_set_plain:
  assumes "\<forall>k\<in>fst ` set b. plain k"
  shows "apply_set L (updateData L t b) d = Inr (set_all (updateData L t b) d)"
proof -
  have p: "plain ''updated_at''" by (simp add: plain_def)
  from assms p have all: "\<forall>k\<in>fst ` set (updateData L t b). plain k"
    by (simp add: keys_updateData)
  then have "''_id'' \<notin> fst ` set (updateData L t b)"
    by (auto simp: plain_def)
  moreover from all have "list_all plain (map fst (updateData L t b))"
    by (simp add: list_all_iff)
  ultimately show ?thesis by (simp add: apply_set_def)
qed

lemma update_first_ok:
  assumes "map_of c i = Some d" and "f d = Inr d'"
  shows "\<exists>c'. update_first i f c = Inr c' \<and> map_of c' = (map_of c)(i \<mapsto> d')"
  using assms
proof (induction c)
  case Nil
  then show ?case by simp
next
  case (Cons a c)
  obtain j x where a: "a = (j, x)" by (cases a)
  show ?case
  proof (cases "j = i")
    case True
    with Cons.prems a show ?thesis by (auto simp: fun_eq_iff)
  next
    case False
    with Cons.prems a have "map_of c i = Some d" by simp
    from Cons.IH [OF this Cons.prems(2)] obtain c'
      where "update_first i f c = Inr c'" "map_of c' = (map_of c)(i \<mapsto> d')" by blast
    with False a show ?thesis by (auto simp: fun_eq_iff)
  qed
qed

text \<open>
  The update handler on a request that passes validation and addresses an existing
  record, when the keys of the body are plain field names.
\<close>

lemma put_plain:
  assumes valid: "validationResult L req (validateObjectId @ validateEmployeeUpdate) = []"
    and parse: "new_ObjectId L (field (params req) ''eid'') = Some i"
    and rec: "map_of (employees s) i = Some d"
    and keys: "\<forall>k\<in>fst ` set (body req). plain k"
  shows "\<exists>s'. put_employees_eid L t req s
            = (\<lparr>status = 200, json = message_body ''Employee details updated successfully.''\<rparr>,
               s')
          \<and> map_of (employees s')
              = (map_of (employees s))(i \<mapsto> set_all (updateData L t (body req)) d)
          \<and> users s' = users s"
proof -
  have ap: "apply_set L (updateData L t (body req)) d
              = Inr (set_all (updateData L t (body req)) d)"
    by (rule apply_set_plain [OF keys])
  from update_first_ok [of "employees s" i d "apply_set L (updateData L t (body req))", OF rec ap]
  obtain c'
    where c': "update_first i (apply_set L (updateData L t (body req))) (employees s) = Inr c'"
      "map_of c' = (map_of (employees s))(i \<mapsto> set_all (updateData L t (body req)) d)"
    by blast
  have "put_employees_eid L t req s
      = (\<lparr>status = 200, json = message_body ''Employee details updated successfully.''\<rparr>,
         logged (UpdateOne Employees) (set_docs Employees c' (logged (FindOne Employees) s)))"
    using valid parse rec c'(1)
    by (simp add: put_employees_eid_def findOne_by_id updateOne_def logged_def)
  with c'(2) show ?thesis by (simp add: logged_def)
qed

text \<open>A 200 response of the update handler means validation passed and the record exists.\<close>

lemma put_200:
  assumes "put_employees_eid L t req s = (res, s')" and "status res = 200"
  shows "validationResult L req (validateObjectId @ validateEmployeeUpdate) = []
       \<and> (\<exists>i d. new_ObjectId L (field (params req) ''eid'') = Some i
                \<and> map_of (employees s) i = Some d)"
proof -
  have v: "validationResult L req (validateObjectId @ validateEmployeeUpdate) = []"
  proof (cases "validationResult L req (validateObjectId @ validateEmployeeUpdate)")
    case Nil then show ?thesis .
  next
    case (Cons m ms)
    with assms show ?thesis by (auto simp: put_employees_eid_def)
  qed
  obtain i where i: "new_ObjectId L (field (params req) ''eid'') = Some i"
    using assms v by (cases "new_ObjectId L (field (params req) ''eid'')")
      (auto simp: put_employees_eid_def internal_error_def)
  obtain d where "map_of (employees s) i = Some d"
    using assms v i by (cases "map_of (employees s) i")
      (auto simp: put_employees_eid_def findOne_by_id)
  with v i show ?thesis by blast
qed

text \<open>The handlers keep the identifiers of the employee collection unique.\<close>

lemma update_first_ids: "update_first i f c = Inr c' \<Longrightarrow> map fst c' = map fst c"
proof (induction c arbitrary: c')
  case Nil
  then show ?case by simp
next
  case (Cons a c)
  obtain j x where a: "a = (j, x)" by (cases a)
  show ?case
  proof (cases "j = i")
    case True
    with Cons.prems a show ?thesis by (auto split: sum.splits)
  next
    case False
    with Cons.prems a obtain c2 where "update_first i f c = Inr c2" "c' = (j, x) # c2"
      by (auto split: sum.splits)
    with Cons.IH [of c2] a show ?thesis by simp
  qed
qed

lemma delete_first_subset: "set (delete_first i c) \<subseteq> set c"
  by (induction c) (auto split: if_splits)

lemma delete_first_ids: "distinct (map fst c) \<Longrightarrow> distinct (map fst (delete_first i c))"
proof (induction c)
  case Nil
  then show ?case by simp
next
  case (Cons a c)
  obtain j x where a: "a = (j, x)" by (cases a)
  have "fst ` set (delete_first i c) \<subseteq> fst ` set c"
    using delete_first_subset [of i c] by (rule image_mono)
  with Cons a show ?case by (cases "j = i") auto
qed

lemma ids_stay_unique:
  assumes "distinct (map fst (employees s))"
  shows "distinct (map fst (employees (snd (post_employees L t1 t2 i req s))))"
    and "distinct (map fst (employees (snd (get_employees_eid L req s))))"
    and "distinct (map fst (employees (snd (put_employees_eid L t req s))))"
    and "distinct (map fst (employees (snd (delete_employees L req s))))"
proof -
  show "distinct (map fst (employees (snd (post_employees L t1 t2 i req s))))"
    using assms
    by (auto simp: post_employees_def findOne_def insertOne_def logged_def Let_def
        split: list.splits option.splits)
  show "distinct (map fst (employees (snd (get_employees_eid L req s))))"
    using assms
    by (auto simp: get_employees_eid_def findOne_by_id logged_def
        split: list.splits option.splits)
  show "distinct (map fst (employees (snd (put_employees_eid L t req s))))"
    using assms
    by (auto simp: put_employees_eid_def findOne_by_id updateOne_def logged_def
        dest: update_first_ids split: list.splits option.splits sum.splits)
  show "distinct (map fst (employees (snd (delete_employees L req s))))"
    using assms
    by (auto simp: delete_employees_def findOne_by_id deleteOne_def logged_def
        delete_first_ids split: list.splits option.splits)
qed

text \<open>Evaluating the sample library and the sample store.\<close>

lemmas sample_simps =
  sample_library_def sample_hexadecimal_def sample_db_def ann_id_def bob_id_def alice_id_def carol_id_def new_id_def
  ann_def bob_def alice_def carol_def sample_email_def sample_iso_date_def is_digit_def
  is_hex_def decimal_def days_from_civil_def

lemmas handler_simps =
  validationResult_def validateEmployee_def validateEmployeeUpdate_def validateObjectId_def
  validateQueryId_def validateLogin_def field_def findOne_def insertOne_def updateOne_def
  deleteOne_def apply_set_def set_all_def plain_def updateData_def logged_def field_pred_def
  eq_match_def nullish_def compare_def user_matches_def

section \<open>Malformed identifiers\<close>

text \<open>
  When the validator rejects the identifier, fetch, update and delete answer 400 with the
  message of the identifier's chain and return the database as it was, the log of
  operations included. The identifier is the path parameter \<^verbatim>\<open>eid\<close> for fetch and
  update and the query parameter \<^verbatim>\<open>eid\<close> for delete.
\<close>

lemma rejected_id_answers_400:
  "(\<not> check L IsMongoId (field (params req) ''eid'') \<longrightarrow>
      get_employees_eid L req s
        = (\<lparr>status = 400, json = error_body ''Invalid employee ID''\<rparr>, s)
    \<and> put_employees_eid L t req s
        = (\<lparr>status = 400, json = error_body ''Invalid employee ID''\<rparr>, s))
   \<and> (\<not> check L IsMongoId (field (query req) ''eid'') \<longrightarrow>
      delete_employees L req s
        = (\<lparr>status = 400, json = error_body ''Invalid employee ID''\<rparr>, s))"
  by (simp add: get_employees_eid_def put_employees_eid_def delete_employees_def
      validationResult_def validateObjectId_def validateQueryId_def)

text \<open>
  When the validator accepts the identifier and the \<^verbatim>\<open>ObjectId\<close> constructor throws on
  it, the three handlers answer 500; the database is again as it was.
\<close>

lemma unparsable_id_answers_500:
  "(check L IsMongoId (field (params req) ''eid'')
      \<and> new_ObjectId L (field (params req) ''eid'') = None \<longrightarrow>
      get_employees_eid L req s = (internal_error, s)
    \<and> (validationResult L req validateEmployeeUpdate = [] \<longrightarrow>
         put_employees_eid L t req s = (internal_error, s)))
   \<and> (check L IsMongoId (field (query req) ''eid'')
      \<and> new_ObjectId L (field (query req) ''eid'') = None \<longrightarrow>
      delete_employees L req s = (internal_error, s))"
  by (simp add: get_employees_eid_def put_employees_eid_def delete_employees_def
      validationResult_def validateObjectId_def validateQueryId_def)

text \<open>
  Claim C6 fails on the code. The identifier \<^verbatim>\<open>0x0000000000000000000000\<close> does not have
  the object-id shape: it has 24 characters, but the second one is not a hexadecimal digit.
  The validator accepts it, since it takes \<^verbatim>\<open>0x\<close> for the prefix of a hexadecimal
  number, the \<^verbatim>\<open>ObjectId\<close> constructor throws on it, and fetch, update and delete answer
  500 where the claim says 400. The other half of the claim holds there: no operation is
  sent to the database, which is returned as it was.
\<close>

theorem prefixed_id_answers_500:
  "\<not> object_id_shape (JStr prefixed_id)
   \<and> check sample_library IsMongoId (JStr prefixed_id)
   \<and> new_ObjectId sample_library (JStr prefixed_id) = None
   \<and> get_employees_eid sample_library with_prefixed_id sample_db = (internal_error, sample_db)
   \<and> put_employees_eid sample_library (JDate 1700000000500) with_prefixed_id sample_db
       = (internal_error, sample_db)
   \<and> delete_employees sample_library with_prefixed_id sample_db = (internal_error, sample_db)
   \<and> status internal_error = 500"
  by (simp add: get_employees_eid_def put_employees_eid_def delete_employees_def
      validationResult_def validateObjectId_def validateQueryId_def validateEmployeeUpdate_def
      with_prefixed_id_def prefixed_id_def field_def sample_library_def sample_hexadecimal_def
      is_hex_def internal_error_def)

section \<open>Creating an employee\<close>

text \<open>
  Claim C2. A create request whose email field equals the email of an employee already in
  the store is answered with 400, and no record is inserted: the employee collection (and
  the user collection) is as before. Either validation rejects the request, or the lookup
  by email finds the stored record. The premise on the library says that the email
  validator accepts no operator document, so that the lookup filter is an equality.
\<close>

theorem duplicate_email_rejected:
  assumes lib: "\<And>v. check L IsEmail v \<Longrightarrow> \<not> is_operator v"
    and rec: "(j, d) \<in> set (employees s)"
    and same: "field d ''email'' = field (body req) ''email''"
  shows "status (fst (post_employees L t1 t2 i req s)) = 400
       \<and> employees (snd (post_employees L t1 t2 i req s)) = employees s
       \<and> users (snd (post_employees L t1 t2 i req s)) = users s"
proof (cases "validationResult L req validateEmployee")
  case (Cons m ms)
  then show ?thesis by (simp add: post_employees_def)
next
  case Nil
  then have "check L IsEmail (field (body req) ''email'')"
    by (simp add: validationResult_Nil validateEmployee_def)
  then have nop: "\<not> is_operator (field (body req) ''email'')" by (rule lib)
  have "find (\<lambda>(j, d). eq_match (field (body req) ''email'') (field d ''email'')) (employees s)
          \<noteq> None"
  proof -
    have "case (j, d) of (j, d) \<Rightarrow> eq_match (field (body req) ''email'') (field d ''email'')"
      by (simp add: same eq_match_refl)
    with rec show ?thesis unfolding find_None_iff by blast
  qed
  then obtain x
    where "find (\<lambda>(j, d). eq_match (field (body req) ''email'') (field d ''email''))
             (employees s) = Some x"
    by blast
  with Nil nop show ?thesis
    by (simp add: post_employees_def findOne_def field_pred_def logged_def)
qed

text \<open>
  The request of the example passes validation, so it is the lookup that rejects it.
\<close>

theorem duplicate_email_rejected_witness:
  "(ann_id, ann) \<in> set (employees sample_db)
   \<and> field ann ''email'' = field (body \<lparr>body = new_ann, params = [], query = []\<rparr>) ''email''
   \<and> validationResult sample_library \<lparr>body = new_ann, params = [], query = []\<rparr>
        validateEmployee = []
   \<and> status (fst (post_employees sample_library (JDate 1700000000001) (JDate 1700000000002)
         new_id \<lparr>body = new_ann, params = [], query = []\<rparr> sample_db))
       = 400
   \<and> employees (snd (post_employees sample_library (JDate 1700000000001) (JDate 1700000000002)
         new_id \<lparr>body = new_ann, params = [], query = []\<rparr> sample_db))
       = employees sample_db"
proof -
  have a: "(ann_id, ann) \<in> set (employees sample_db)"
    by (simp add: sample_db_def)
  have b: "field ann ''email''
             = field (body \<lparr>body = new_ann, params = [], query = []\<rparr>) ''email''"
    by (simp add: field_def ann_def new_ann_def)
  have c: "validationResult sample_library \<lparr>body = new_ann, params = [], query = []\<rparr>
             validateEmployee = []"
    by (simp add: validationResult_def validateEmployee_def new_ann_def field_def
        sample_library_def sample_email_def sample_iso_date_def is_digit_def)
  from duplicate_email_rejected [of sample_library ann_id ann sample_db,
      OF sample_check_no_operator a b] a b c
  show ?thesis by simp
qed



section \<open>Deleting an employee\<close>

text \<open>
  Claim C9. For a record present in the store, two consecutive delete-by-id requests with
  its identifier return 200, with the record removed and every other record kept, and then
  404, with the employee collection as the first request left it. The premises say that
  identifiers are unique in the collection, and that the library accepts the identifier's
  string form and reads it back as the same identifier.
\<close>

theorem delete_twice:
  assumes wf: "distinct (map fst (employees s))"
    and rec: "(i, d) \<in> set (employees s)"
    and shape: "check L IsMongoId (JStr i)"
    and parse: "new_ObjectId L (JStr i) = Some i"
    and eid: "field (query req) ''eid'' = JStr i"
  shows "fst (delete_employees L req s)
           = \<lparr>status = 200, json = message_body ''Employee deleted successfully.''\<rparr>
       \<and> map_of (employees (snd (delete_employees L req s))) = (map_of (employees s))(i := None)
       \<and> fst (delete_employees L req (snd (delete_employees L req s)))
           = \<lparr>status = 404, json = error_body ''Employee not found''\<rparr>
       \<and> employees (snd (delete_employees L req (snd (delete_employees L req s))))
           = employees (snd (delete_employees L req s))"
proof -
  have v: "validationResult L req validateQueryId = []"
    using shape eid by (simp add: validationResult_def validateQueryId_def)
  from wf rec have m: "map_of (employees s) i = Some d" by simp
  have one: "delete_employees L req s
      = (\<lparr>status = 200, json = message_body ''Employee deleted successfully.''\<rparr>,
         logged (DeleteOne Employees)
           (set_docs Employees (delete_first i (employees s)) (logged (FindOne Employees) s)))"
    using v parse eid m
    by (simp add: delete_employees_def findOne_by_id deleteOne_def logged_def)
  let ?s1 = "snd (delete_employees L req s)"
  have e1: "employees ?s1 = delete_first i (employees s)"
    by (simp add: one logged_def)
  have gone: "map_of (employees ?s1) i = None"
    by (simp add: e1 delete_first_absent [OF wf])
  have two: "delete_employees L req ?s1
      = (\<lparr>status = 404, json = error_body ''Employee not found''\<rparr>,
         logged (FindOne Employees) ?s1)"
    using v parse eid gone
    by (simp add: delete_employees_def findOne_by_id)
  show ?thesis
    using one e1 two by (simp add: delete_first_absent [OF wf] logged_def)
qed

theorem delete_twice_witness:
  "distinct (map fst (employees sample_db))
   \<and> (ann_id, ann) \<in> set (employees sample_db)
   \<and> fst (delete_employees sample_library delete_ann sample_db)
       = \<lparr>status = 200, json = message_body ''Employee deleted successfully.''\<rparr>
   \<and> employees (snd (delete_employees sample_library delete_ann sample_db)) = [(bob_id, bob)]
   \<and> fst (delete_employees sample_library delete_ann
             (snd (delete_employees sample_library delete_ann sample_db)))
       = \<lparr>status = 404, json = error_body ''Employee not found''\<rparr>
   \<and> employees (snd (delete_employees sample_library delete_ann
                        (snd (delete_employees sample_library delete_ann sample_db))))
       = [(bob_id, bob)]"
proof -
  have wf: "distinct (map fst (employees sample_db))"
    by (simp add: sample_db_def ann_id_def bob_id_def)
  have rec: "(ann_id, ann) \<in> set (employees sample_db)"
    by (simp add: sample_db_def)
  have shape: "check sample_library IsMongoId (JStr ann_id)"
    by (simp add: sample_library_def ann_id_def is_hex_def sample_hexadecimal_def)
  have parse: "new_ObjectId sample_library (JStr ann_id) = Some ann_id"
    by (simp add: sample_library_def ann_id_def is_hex_def sample_hexadecimal_def)
  have eid: "field (query delete_ann) ''eid'' = JStr ann_id"
    by (simp add: delete_ann_def field_def)
  have first: "employees (snd (delete_employees sample_library delete_ann sample_db))
                 = [(bob_id, bob)]"
    by (simp add: delete_employees_def delete_ann_def handler_simps find_by_id
        sample_library_def sample_db_def ann_id_def bob_id_def is_hex_def sample_hexadecimal_def)
  from delete_twice [OF wf rec shape parse eid] wf rec first
  show ?thesis by simp
qed

section \<open>Login\<close>

text \<open>The lookup of the login handler finds the first stored user that matches.\<close>

lemma find_split:
  "find P xs = Some x \<longleftrightarrow>
     (\<exists>pre post. xs = pre @ x # post \<and> (\<forall>y\<in>set pre. \<not> P y) \<and> P x)"
proof
  assume "find P xs = Some x"
  then show "\<exists>pre post. xs = pre @ x # post \<and> (\<forall>y\<in>set pre. \<not> P y) \<and> P x"
  proof (induction xs)
    case Nil
    then show ?case by simp
  next
    case (Cons a xs)
    show ?case
    proof (cases "P a")
      case True
      with Cons.prems have "a = x" by simp
      with True have "a # xs = [] @ x # xs \<and> (\<forall>y\<in>set []. \<not> P y) \<and> P x" by simp
      then show ?thesis by blast
    next
      case False
      with Cons.prems have "find P xs = Some x" by simp
      from Cons.IH [OF this] obtain pre post
        where "xs = pre @ x # post" "\<forall>y\<in>set pre. \<not> P y" "P x" by blast
      with False have "a # xs = (a # pre) @ x # post \<and> (\<forall>y\<in>set (a # pre). \<not> P y) \<and> P x"
        by simp
      then show ?thesis by blast
    qed
  qed
next
  assume "\<exists>pre post. xs = pre @ x # post \<and> (\<forall>y\<in>set pre. \<not> P y) \<and> P x"
  then show "find P xs = Some x" by (auto simp: find_first)
qed

lemma login_resolved:
  assumes valid: "validationResult L req validateLogin = []"
    and nop: "\<not> is_operator (field (body req) ''email'')"
  shows "login L req s =
     (case find (user_matches (field (body req) ''email'')) (users s) of
        None \<Rightarrow> \<lparr>status = 401, json = error_body ''Invalid Username and password''\<rparr>
      | Some (j, u) \<Rightarrow>
          (case compare L (field (body req) ''password'') (field u ''password'') of
             Inl e \<Rightarrow> internal_error
           | Inr b \<Rightarrow>
              (if b then \<lparr>status = 200,
                        json = JObj [(''message'', JStr ''Login successful.''),
                                     (''jwt_token'', JStr ''Optional implementation'')]\<rparr>
               else \<lparr>status = 401, json = error_body ''Invalid Username and password''\<rparr>)),
      logged (FindOne Users) s)"
  using valid nop
  by (simp add: login_def findOne_login split: option.splits sum.splits bool.splits)

text \<open>
  Claim C7, as stated, fails: a user whose username equals the supplied value, and whose
  credential verifies, is refused when another user with that value as email is stored
  before. Two signups into an empty store give such a state, since signup compares the new
  username with the stored usernames only and the new email with the stored emails only:
  \<open>dave\<close> signs up with the email \<^verbatim>\<open>shared@example.com\<close>, then \<open>erin\<close> with the username
  \<^verbatim>\<open>shared@example.com\<close>. The login with that value and the credential of \<open>erin\<close> is
  answered with 401: the lookup finds \<open>dave\<close>, and the credential is compared with his
  hash.
\<close>

theorem login_by_username_shadowed:
  "status (fst (signup sample_library (JDate 1700000000001) (JDate 1700000000002) dave_id
                  signup_dave empty_db)) = 201
   \<and> status (fst (signup sample_library (JDate 1700000000003) (JDate 1700000000004) erin_id
                  signup_erin
                  (snd (signup sample_library (JDate 1700000000001) (JDate 1700000000002) dave_id
                          signup_dave empty_db)))) = 201
   \<and> users after_signups = [(dave_id, dave), (erin_id, erin)]
   \<and> validationResult sample_library login_erin validateLogin = []
   \<and> field erin ''username'' = field (body login_erin) ''email''
   \<and> compare sample_library (field (body login_erin) ''password'') (field erin ''password'')
       = Inr True
   \<and> fst (login sample_library login_erin after_signups)
       = \<lparr>status = 401, json = error_body ''Invalid Username and password''\<rparr>"
  by (simp add: after_signups_def signup_def hash_password_def login_def signup_dave_def
      signup_erin_def login_erin_def empty_db_def dave_def erin_def dave_id_def erin_id_def
      validateSignup_def handler_simps sample_library_def sample_email_def Let_def)

text \<open>
  Claim C7, amended. For a login request that passes validation, the lookup takes the
  first stored user, in the order of the store, whose stored email or stored username
  matches the supplied email field, a match on the username counting exactly as a match on
  the email. The login succeeds, with status 200 and the success body, exactly when there
  is such a user and the supplied credential verifies against the hash of that user; a
  matching user stored after another matching user is not looked at. A stored value that
  equals the supplied one matches it (\<open>eq_match_refl\<close>). The premise on the library says
  that the email validator accepts no operator document.
\<close>

theorem login_lookup:
  assumes valid: "validationResult L req validateLogin = []"
    and lib: "\<And>v. check L IsEmail v \<Longrightarrow> \<not> is_operator v"
  shows "(fst (login L req s)
            = \<lparr>status = 200,
               json = JObj [(''message'', JStr ''Login successful.''),
                            (''jwt_token'', JStr ''Optional implementation'')]\<rparr>)
       = (\<exists>pre j u post.
            users s = pre @ (j, u) # post
          \<and> (\<forall>y\<in>set pre. \<not> user_matches (field (body req) ''email'') y)
          \<and> (eq_match (field (body req) ''email'') (field u ''email'')
               \<or> eq_match (field (body req) ''email'') (field u ''username''))
          \<and> compare L (field (body req) ''password'') (field u ''password'') = Inr True)
       \<and> (status (fst (login L req s)) = 200)
         = (fst (login L req s)
              = \<lparr>status = 200,
                 json = JObj [(''message'', JStr ''Login successful.''),
                              (''jwt_token'', JStr ''Optional implementation'')]\<rparr>)"
proof -
  let ?e = "field (body req) ''email''"
  let ?ok = "\<lparr>status = 200,
               json = JObj [(''message'', JStr ''Login successful.''),
                            (''jwt_token'', JStr ''Optional implementation'')]\<rparr>"
  from valid have "check L IsEmail ?e"
    by (simp add: validationResult_Nil validateLogin_def)
  then have nop: "\<not> is_operator ?e" by (rule lib)
  note run = login_resolved [OF valid nop, of s]
  have found: "(find (user_matches ?e) (users s) = Some (j, u))
      = (\<exists>pre post. users s = pre @ (j, u) # post
           \<and> (\<forall>y\<in>set pre. \<not> user_matches ?e y)
           \<and> (eq_match ?e (field u ''email'') \<or> eq_match ?e (field u ''username'')))" for j u
    by (simp add: find_split user_matches_def)
  have a: "(fst (login L req s) = ?ok)
      = (\<exists>j u. find (user_matches ?e) (users s) = Some (j, u)
            \<and> compare L (field (body req) ''password'') (field u ''password'') = Inr True)"
    by (auto simp: run internal_error_def split: option.splits sum.splits)
  have b: "(status (fst (login L req s)) = 200) = (fst (login L req s) = ?ok)"
    by (auto simp: run internal_error_def split: option.splits sum.splits)
  from a b show ?thesis unfolding found by blast
qed

text \<open>
  In the first example the supplied value is the username of \<open>carol\<close>, not her email, and
  the login succeeds. In the second the store has no user, and the login does not succeed.
\<close>

theorem login_lookup_witness:
  "validationResult sample_library login_carol validateLogin = []
   \<and> users sample_db = [(alice_id, alice)] @ (carol_id, carol) # []
   \<and> \<not> user_matches (field (body login_carol) ''email'') (alice_id, alice)
   \<and> field carol ''username'' = field (body login_carol) ''email''
   \<and> field carol ''email'' \<noteq> field (body login_carol) ''email''
   \<and> compare sample_library (field (body login_carol) ''password'') (field carol ''password'')
       = Inr True
   \<and> fst (login sample_library login_carol sample_db)
       = \<lparr>status = 200,
          json = JObj [(''message'', JStr ''Login successful.''),
                       (''jwt_token'', JStr ''Optional implementation'')]\<rparr>
   \<and> status (fst (login sample_library login_carol empty_db)) \<noteq> 200"
proof -
  let ?e = "field (body login_carol) ''email''"
  have valid: "validationResult sample_library login_carol validateLogin = []"
    by (simp add: login_carol_def validationResult_def validateLogin_def field_def
        sample_library_def sample_email_def)
  have store: "users sample_db = [(alice_id, alice)] @ (carol_id, carol) # []"
    by (simp add: sample_db_def)
  have alice: "\<not> user_matches ?e (alice_id, alice)"
    by (simp add: user_matches_def eq_match_def nullish_def field_def login_carol_def alice_def)
  then have earlier: "\<forall>y\<in>set [(alice_id, alice)]. \<not> user_matches ?e y"
    by simp
  have named: "field carol ''username'' = ?e"
    by (simp add: field_def login_carol_def carol_def)
  have other: "field carol ''email'' \<noteq> ?e"
    by (simp add: field_def login_carol_def carol_def)
  have verifies: "compare sample_library (field (body login_carol) ''password'')
                    (field carol ''password'') = Inr True"
    by (simp add: compare_def field_def login_carol_def carol_def sample_library_def)
  from named have "eq_match ?e (field carol ''email'') \<or> eq_match ?e (field carol ''username'')"
    by (simp add: eq_match_refl)
  with store earlier verifies
  have found: "\<exists>pre j u post.
            users sample_db = pre @ (j, u) # post
          \<and> (\<forall>y\<in>set pre. \<not> user_matches ?e y)
          \<and> (eq_match ?e (field u ''email'') \<or> eq_match ?e (field u ''username''))
          \<and> compare sample_library (field (body login_carol) ''password'') (field u ''password'')
              = Inr True"
    by blast
  have none: "\<not> (\<exists>pre j u post.
            users empty_db = pre @ (j, u) # post
          \<and> (\<forall>y\<in>set pre. \<not> user_matches ?e y)
          \<and> (eq_match ?e (field u ''email'') \<or> eq_match ?e (field u ''username''))
          \<and> compare sample_library (field (body login_carol) ''password'') (field u ''password'')
              = Inr True)"
    by (simp add: empty_db_def)
  have lib: "\<not> is_operator v" if "check sample_library IsEmail v" for v
    using that by (rule sample_check_no_operator)
  from login_lookup [OF valid lib, where s = sample_db] found
  have yes: "fst (login sample_library login_carol sample_db)
       = \<lparr>status = 200,
          json = JObj [(''message'', JStr ''Login successful.''),
                       (''jwt_token'', JStr ''Optional implementation'')]\<rparr>"
    by blast
  from login_lookup [OF valid lib, where s = empty_db] none
  have no: "status (fst (login sample_library login_carol empty_db)) \<noteq> 200"
    by blast
  from valid store alice named other verifies yes no show ?thesis by blast
qed

text \<open>
  Where the comparison of the credential with the hash returns false, the response is the
  one for an unknown email: for two login requests that pass validation, one with an email
  that matches no stored user and one whose lookup finds a stored user against whose hash
  the supplied string does not verify, both responses are 401 with the same body. This is
  the defence against enumeration the handler aims at.
\<close>

lemma login_failures_identical:
  assumes valid1: "validationResult L r1 validateLogin = []"
    and valid2: "validationResult L r2 validateLogin = []"
    and lib: "\<And>v. check L IsEmail v \<Longrightarrow> \<not> is_operator v"
    and nobody: "find (user_matches (field (body r1) ''email'')) (users s1) = None"
    and somebody: "find (user_matches (field (body r2) ''email'')) (users s2) = Some (j, u)"
    and wrong: "compare L (field (body r2) ''password'') (field u ''password'') = Inr False"
  shows "fst (login L r1 s1)
           = \<lparr>status = 401, json = error_body ''Invalid Username and password''\<rparr>
       \<and> fst (login L r2 s2)
           = \<lparr>status = 401, json = error_body ''Invalid Username and password''\<rparr>"
proof -
  from valid1 have "check L IsEmail (field (body r1) ''email'')"
    by (simp add: validationResult_Nil validateLogin_def)
  then have nop1: "\<not> is_operator (field (body r1) ''email'')" by (rule lib)
  from valid2 have "check L IsEmail (field (body r2) ''email'')"
    by (simp add: validationResult_Nil validateLogin_def)
  then have nop2: "\<not> is_operator (field (body r2) ''email'')" by (rule lib)
  from valid1 nop1 nobody valid2 nop2 somebody wrong show ?thesis
    by (simp add: login_resolved)
qed

text \<open>
  Claim C4 fails on the code. A credential that is not a string passes validation (the
  validator takes the number 123456 for a non-empty value), and \<^verbatim>\<open>bcrypt.compare\<close> throws
  on it instead of returning false. The comparison runs only when the lookup has found a
  user, so the same credential gives 401 for an email that matches no stored user and 500
  for the email of a stored user: the two responses differ, and tell a stored email from
  an unknown one.
\<close>

theorem login_numeric_password_leak:
  "validationResult sample_library login_ghost_numeric validateLogin = []
   \<and> validationResult sample_library login_alice_numeric validateLogin = []
   \<and> find (user_matches (field (body login_ghost_numeric) ''email'')) (users sample_db) = None
   \<and> find (user_matches (field (body login_alice_numeric) ''email'')) (users sample_db)
       = Some (alice_id, alice)
   \<and> compare sample_library (field (body login_alice_numeric) ''password'')
        (field alice ''password'') = Inl BcryptError
   \<and> fst (login sample_library login_ghost_numeric sample_db)
       = \<lparr>status = 401, json = error_body ''Invalid Username and password''\<rparr>
   \<and> fst (login sample_library login_alice_numeric sample_db)
       = \<lparr>status = 500, json = error_body ''Internal server error''\<rparr>"
  by (simp add: login_def login_ghost_numeric_def login_alice_numeric_def handler_simps
      internal_error_def sample_library_def sample_db_def alice_def carol_def sample_email_def)

section \<open>Updating an employee\<close>

text \<open>
  Claim C1. When an update-by-id request whose body has only keys among the seven employee
  fields is answered with 200, the request addressed an existing record, that record is
  the only one that changes, and in it every field that is neither a key of the body nor
  \<^verbatim>\<open>updated_at\<close> is as before (present with the same value, or absent as before): the only
  fields that can differ are the supplied ones and the update timestamp.
\<close>

theorem update_frame:
  assumes run: "put_employees_eid L t req s = (res, s')"
    and ok: "status res = 200"
    and subset: "fst ` set (body req) \<subseteq> set employee_fields"
  shows "\<exists>i d d'. new_ObjectId L (field (params req) ''eid'') = Some i
           \<and> map_of (employees s) i = Some d
           \<and> map_of (employees s') = (map_of (employees s))(i \<mapsto> d')
           \<and> (\<forall>k. k \<notin> fst ` set (body req) \<and> k \<noteq> ''updated_at'' \<longrightarrow> map_of d' k = map_of d k)
           \<and> users s' = users s"
proof -
  from put_200 [OF run ok] obtain i d
    where valid: "validationResult L req (validateObjectId @ validateEmployeeUpdate) = []"
      and parse: "new_ObjectId L (field (params req) ''eid'') = Some i"
      and rec: "map_of (employees s) i = Some d"
    by blast
  from subset have keys: "\<forall>k\<in>fst ` set (body req). plain k"
    using employee_fields_plain by blast
  from put_plain [OF valid parse rec keys, of t] run
  have s': "map_of (employees s')
              = (map_of (employees s))(i \<mapsto> set_all (updateData L t (body req)) d)"
    and u: "users s' = users s"
    by auto
  have "map_of (set_all (updateData L t (body req)) d) k = map_of d k"
    if "k \<notin> fst ` set (body req) \<and> k \<noteq> ''updated_at''" for k
    using that by (simp add: map_of_set_all map_add_def map_of_updateData_None)
  with parse rec s' u show ?thesis by blast
qed

text \<open>
  The example changes the position and the salary of \<open>ann\<close>: these two fields and
  \<^verbatim>\<open>updated_at\<close> differ afterwards, nothing else.
\<close>

theorem update_frame_witness:
  "status (fst (put_employees_eid sample_library (JDate 1700000000500) promote sample_db)) = 200
   \<and> fst ` set (body promote) \<subseteq> set employee_fields
   \<and> (\<exists>i d d'. new_ObjectId sample_library (field (params promote) ''eid'') = Some i
         \<and> map_of (employees sample_db) i = Some d
         \<and> map_of (employees (snd (put_employees_eid sample_library (JDate 1700000000500)
                                      promote sample_db)))
             = (map_of (employees sample_db))(i \<mapsto> d')
         \<and> (\<forall>k. k \<notin> fst ` set (body promote) \<and> k \<noteq> ''updated_at''
                \<longrightarrow> map_of d' k = map_of d k)
         \<and> users (snd (put_employees_eid sample_library (JDate 1700000000500) promote sample_db))
             = users sample_db)
   \<and> employees (snd (put_employees_eid sample_library (JDate 1700000000500) promote sample_db))
       = [(ann_id,
           [(''first_name'', JStr ''Ann''), (''last_name'', JStr ''Lee''),
            (''email'', JStr ''ann@example.com''), (''position'', JStr ''Lead''),
            (''salary'', JNum 80000), (''date_of_joining'', JDate 1672531200000),
            (''department'', JStr ''Tech''), (''created_at'', JDate 1700000000000),
            (''updated_at'', JDate 1700000000500)]),
          (bob_id, bob)]"
proof -
  have run: "put_employees_eid sample_library (JDate 1700000000500) promote sample_db
      = (fst (put_employees_eid sample_library (JDate 1700000000500) promote sample_db),
         snd (put_employees_eid sample_library (JDate 1700000000500) promote sample_db))"
    by simp
  have result: "put_employees_eid sample_library (JDate 1700000000500) promote sample_db
      = (\<lparr>status = 200, json = message_body ''Employee details updated successfully.''\<rparr>,
         \<lparr>users = [(alice_id, alice), (carol_id, carol)],
          employees =
            [(ann_id,
              [(''first_name'', JStr ''Ann''), (''last_name'', JStr ''Lee''),
               (''email'', JStr ''ann@example.com''), (''position'', JStr ''Lead''),
               (''salary'', JNum 80000), (''date_of_joining'', JDate 1672531200000),
               (''department'', JStr ''Tech''), (''created_at'', JDate 1700000000000),
               (''updated_at'', JDate 1700000000500)]),
             (bob_id, bob)],
          oplog = [FindOne Employees, UpdateOne Employees]\<rparr>)"
    by (simp add: put_employees_eid_def promote_def handler_simps find_by_id
        sample_library_def sample_db_def ann_id_def bob_id_def ann_def is_hex_def sample_hexadecimal_def is_digit_def
        decimal_def)
  have ok: "status (fst (put_employees_eid sample_library (JDate 1700000000500) promote sample_db))
              = 200"
    by (simp add: result)
  have subset: "fst ` set (body promote) \<subseteq> set employee_fields"
    by (simp add: promote_def employee_fields_def validateEmployee_def)
  have after: "employees (snd (put_employees_eid sample_library (JDate 1700000000500) promote
                                 sample_db))
       = [(ann_id,
           [(''first_name'', JStr ''Ann''), (''last_name'', JStr ''Lee''),
            (''email'', JStr ''ann@example.com''), (''position'', JStr ''Lead''),
            (''salary'', JNum 80000), (''date_of_joining'', JDate 1672531200000),
            (''department'', JStr ''Tech''), (''created_at'', JDate 1700000000000),
            (''updated_at'', JDate 1700000000500)]),
          (bob_id, bob)]"
    by (simp add: result)
  from update_frame [OF run ok subset] ok subset after
  show ?thesis by blast
qed

text \<open>
  Claim C8. Uniqueness of employee emails is checked at creation only. For two distinct
  existing records, the update-by-id request that sets the email of the first to the email
  of the second is answered with 200, and afterwards both records are in the store with
  the same email. The premises say that the library accepts the first identifier's string
  form and reads it back, and that the email stored in the second record passes the email
  validator, as every email written by the create and update handlers does.
\<close>

theorem update_ignores_email_conflict:
  assumes r1: "map_of (employees s) i1 = Some d1"
    and r2: "map_of (employees s) i2 = Some d2"
    and distinct: "i1 \<noteq> i2"
    and shape: "check L IsMongoId (JStr i1)"
    and parse: "new_ObjectId L (JStr i1) = Some i1"
    and stored: "check L IsEmail (field d2 ''email'')"
  shows "\<exists>s' d1'.
           put_employees_eid L t
             \<lparr>body = [(''email'', field d2 ''email'')], params = [(''eid'', JStr i1)], query = q\<rparr> s
             = (\<lparr>status = 200, json = message_body ''Employee details updated successfully.''\<rparr>,
                s')
         \<and> map_of (employees s') i1 = Some d1'
         \<and> map_of (employees s') i2 = Some d2
         \<and> field d1' ''email'' = field d2 ''email''"
proof -
  let ?req = "\<lparr>body = [(''email'', field d2 ''email'')], params = [(''eid'', JStr i1)],
               query = q\<rparr>"
  have valid: "validationResult L ?req (validateObjectId @ validateEmployeeUpdate) = []"
    using shape stored
    by (simp add: validationResult_def validateObjectId_def validateEmployeeUpdate_def field_def)
  have p: "new_ObjectId L (field (params ?req) ''eid'') = Some i1"
    using parse by (simp add: field_def)
  have keys: "\<forall>k\<in>fst ` set (body ?req). plain k"
    by (simp add: plain_def)
  from put_plain [OF valid p r1 keys, of t] obtain s'
    where run: "put_employees_eid L t ?req s
            = (\<lparr>status = 200, json = message_body ''Employee details updated successfully.''\<rparr>,
               s')"
      and after: "map_of (employees s')
                    = (map_of (employees s))(i1 \<mapsto> set_all (updateData L t (body ?req)) d1)"
    by blast
  have "field (set_all (updateData L t (body ?req)) d1) ''email'' = field d2 ''email''"
    by (simp add: field_def map_of_set_all updateData_def map_of_assign)
  with run after r2 distinct show ?thesis by auto
qed

theorem update_ignores_email_conflict_witness:
  "map_of (employees sample_db) ann_id = Some ann
   \<and> map_of (employees sample_db) bob_id = Some bob
   \<and> ann_id \<noteq> bob_id
   \<and> field ann ''email'' \<noteq> field bob ''email''
   \<and> (\<exists>s' d1'.
         put_employees_eid sample_library (JDate 1700000000500)
           \<lparr>body = [(''email'', field bob ''email'')], params = [(''eid'', JStr ann_id)], query = []\<rparr>
           sample_db
           = (\<lparr>status = 200, json = message_body ''Employee details updated successfully.''\<rparr>,
              s')
       \<and> map_of (employees s') ann_id = Some d1'
       \<and> map_of (employees s') bob_id = Some bob
       \<and> field d1' ''email'' = field bob ''email'')"
proof -
  have r1: "map_of (employees sample_db) ann_id = Some ann"
    by (simp add: sample_db_def)
  have ne: "ann_id \<noteq> bob_id"
    by (simp add: ann_id_def bob_id_def)
  have r2: "map_of (employees sample_db) bob_id = Some bob"
    using ne by (simp add: sample_db_def)
  have shape: "check sample_library IsMongoId (JStr ann_id)"
    by (simp add: sample_library_def ann_id_def is_hex_def sample_hexadecimal_def)
  have parse: "new_ObjectId sample_library (JStr ann_id) = Some ann_id"
    by (simp add: sample_library_def ann_id_def is_hex_def sample_hexadecimal_def)
  have stored: "check sample_library IsEmail (field bob ''email'')"
    by (simp add: sample_library_def field_def bob_def sample_email_def)
  have differ: "field ann ''email'' \<noteq> field bob ''email''"
    by (simp add: field_def ann_def bob_def)
  from update_ignores_email_conflict [OF r1 r2 ne shape parse stored,
      of "JDate 1700000000500" "[]"] r1 r2 ne differ
  show ?thesis by simp
qed

text \<open>
  Claim C10, as stated, fails: the store refuses an update document that has the key
  \<^verbatim>\<open>_id\<close>. A request that passes validation on an existing record and whose body has the
  keys \<^verbatim>\<open>_id\<close> and \<^verbatim>\<open>note\<close> is answered with 500, and no key of the body is written:
  the employee collection is as before, and the record has no field \<^verbatim>\<open>note\<close>.
\<close>

theorem update_with_id_key_writes_nothing:
  "validationResult sample_library with_id_key (validateObjectId @ validateEmployeeUpdate) = []
   \<and> new_ObjectId sample_library (field (params with_id_key) ''eid'') = Some ann_id
   \<and> map_of (employees sample_db) ann_id = Some ann
   \<and> ''note'' \<in> fst ` set (body with_id_key)
   \<and> fst (put_employees_eid sample_library (JDate 1700000000500) with_id_key sample_db)
       = internal_error
   \<and> employees (snd (put_employees_eid sample_library (JDate 1700000000500) with_id_key
                        sample_db))
       = employees sample_db
   \<and> ''note'' \<notin> fst ` set ann"
  by (simp add: put_employees_eid_def with_id_key_def handler_simps find_by_id
      sample_library_def sample_db_def ann_id_def bob_id_def ann_def is_hex_def sample_hexadecimal_def)

text \<open>
  Claim C10, amended. For an update-by-id request that passes validation on an existing
  record and whose body has only plain field names as keys (not empty, without a dot or a
  NUL, not starting with a dollar sign, and not \<^verbatim>\<open>_id\<close>), the response is 200 and every
  key of the body, declared employee field or not, is a field of the stored record
  afterwards. Its value is the value of the body, with no validation of undeclared keys,
  except that a truthy salary is stored as \<^verbatim>\<open>Number(salary)\<close>, a truthy date of joining
  as \<^verbatim>\<open>new Date(date_of_joining)\<close>, and \<^verbatim>\<open>updated_at\<close> as the current time.
\<close>

theorem update_writes_plain_keys:
  assumes valid: "validationResult L req (validateObjectId @ validateEmployeeUpdate) = []"
    and parse: "new_ObjectId L (field (params req) ''eid'') = Some i"
    and rec: "map_of (employees s) i = Some d"
    and keys: "\<forall>k\<in>fst ` set (body req). plain k"
  shows "\<exists>s' d'.
           put_employees_eid L t req s
             = (\<lparr>status = 200, json = message_body ''Employee details updated successfully.''\<rparr>,
                s')
         \<and> map_of (employees s') i = Some d'
         \<and> (\<forall>k\<in>fst ` set (body req).
               k \<in> fst ` set d'
             \<and> field d' k =
                 (if k = ''updated_at'' then t
                  else if k = ''salary'' \<and> truthy (field (body req) ''salary'')
                       then js_Number L (field (body req) ''salary'')
                  else if k = ''date_of_joining'' \<and> truthy (field (body req) ''date_of_joining'')
                       then js_Date L (field (body req) ''date_of_joining'')
                  else field (body req) k))"
proof -
  let ?u = "updateData L t (body req)"
  from put_plain [OF valid parse rec keys, of t] obtain s'
    where run: "put_employees_eid L t req s
            = (\<lparr>status = 200, json = message_body ''Employee details updated successfully.''\<rparr>,
               s')"
      and after: "map_of (employees s') = (map_of (employees s))(i \<mapsto> set_all ?u d)"
    by blast
  have "k \<in> fst ` set (set_all ?u d) \<and> field (set_all ?u d) k = field ?u k"
    if "k \<in> fst ` set (body req)" for k
  proof -
    from that have "k \<in> fst ` set ?u" by (simp add: keys_updateData)
    then obtain v where v: "map_of ?u k = Some v"
      by (cases "map_of ?u k") (auto simp: map_of_eq_None_iff)
    then have m: "map_of (set_all ?u d) k = Some v"
      by (simp add: map_of_set_all)
    then have "(k, v) \<in> set (set_all ?u d)" by (rule map_of_SomeD)
    then have "k \<in> fst ` set (set_all ?u d)" by force
    with v m show ?thesis by (simp add: field_def)
  qed
  then have "\<forall>k\<in>fst ` set (body req). k \<in> fst ` set (set_all ?u d)
      \<and> field (set_all ?u d) k =
                 (if k = ''updated_at'' then t
                  else if k = ''salary'' \<and> truthy (field (body req) ''salary'')
                       then js_Number L (field (body req) ''salary'')
                  else if k = ''date_of_joining'' \<and> truthy (field (body req) ''date_of_joining'')
                       then js_Date L (field (body req) ''date_of_joining'')
                  else field (body req) k)"
    by (simp only: field_updateData) blast
  with run after show ?thesis by auto
qed

text \<open>
  The body of the example has the undeclared key \<^verbatim>\<open>note\<close>, a salary, and the key
  \<^verbatim>\<open>created_at\<close>, whose stored date is overwritten by a string.
\<close>

theorem update_writes_plain_keys_witness:
  "validationResult sample_library with_note (validateObjectId @ validateEmployeeUpdate) = []
   \<and> new_ObjectId sample_library (field (params with_note) ''eid'') = Some ann_id
   \<and> map_of (employees sample_db) ann_id = Some ann
   \<and> list_all plain (map fst (body with_note))
   \<and> (\<exists>s' d'.
         put_employees_eid sample_library (JDate 1700000000500) with_note sample_db
           = (\<lparr>status = 200, json = message_body ''Employee details updated successfully.''\<rparr>,
              s')
       \<and> map_of (employees s') ann_id = Some d'
       \<and> (\<forall>k\<in>fst ` set (body with_note).
             k \<in> fst ` set d'
           \<and> field d' k =
               (if k = ''updated_at'' then JDate 1700000000500
                else if k = ''salary'' \<and> truthy (field (body with_note) ''salary'')
                     then js_Number sample_library (field (body with_note) ''salary'')
                else if k = ''date_of_joining''
                        \<and> truthy (field (body with_note) ''date_of_joining'')
                     then js_Date sample_library (field (body with_note) ''date_of_joining'')
                else field (body with_note) k)))
   \<and> map_of (employees (snd (put_employees_eid sample_library (JDate 1700000000500) with_note
                                sample_db))) ann_id
       = Some [(''first_name'', JStr ''Ann''), (''last_name'', JStr ''Lee''),
               (''email'', JStr ''ann@example.com''), (''position'', JStr ''Eng''),
               (''salary'', JNum 80000), (''date_of_joining'', JDate 1672531200000),
               (''department'', JStr ''Tech''), (''created_at'', JStr ''never''),
               (''updated_at'', JDate 1700000000500), (''note'', JStr ''hi'')]"
proof -
  have valid: "validationResult sample_library with_note
                 (validateObjectId @ validateEmployeeUpdate) = []"
    by (simp add: with_note_def validationResult_def validateObjectId_def
        validateEmployeeUpdate_def field_def sample_library_def ann_id_def is_hex_def sample_hexadecimal_def is_digit_def)
  have parse: "new_ObjectId sample_library (field (params with_note) ''eid'') = Some ann_id"
    by (simp add: with_note_def field_def sample_library_def ann_id_def is_hex_def sample_hexadecimal_def)
  have rec: "map_of (employees sample_db) ann_id = Some ann"
    by (simp add: sample_db_def)
  have keys: "\<forall>k\<in>fst ` set (body with_note). plain k"
    by (simp add: with_note_def plain_def)
  have stored: "map_of (employees (snd (put_employees_eid sample_library (JDate 1700000000500)
                                          with_note sample_db))) ann_id
       = Some [(''first_name'', JStr ''Ann''), (''last_name'', JStr ''Lee''),
               (''email'', JStr ''ann@example.com''), (''position'', JStr ''Eng''),
               (''salary'', JNum 80000), (''date_of_joining'', JDate 1672531200000),
               (''department'', JStr ''Tech''), (''created_at'', JStr ''never''),
               (''updated_at'', JDate 1700000000500), (''note'', JStr ''hi'')]"
    by (simp add: put_employees_eid_def with_note_def handler_simps find_by_id
        sample_library_def sample_db_def ann_id_def bob_id_def ann_def is_hex_def sample_hexadecimal_def is_digit_def
        decimal_def)
  have names: "list_all plain (map fst (body with_note))"
    by (simp add: with_note_def plain_def)
  from update_writes_plain_keys [OF valid parse rec keys, of "JDate 1700000000500"]
    valid parse rec names stored
  show ?thesis by blast
qed

section \<open>Create, then fetch\<close>

text \<open>
  Claim C5. In a store where no employee matches the email \<^verbatim>\<open>a@b.com\<close> (no stored
  email is this string or an array with it as an element, which is how the lookup by
  email matches), creating an
  employee with the body of the specification returns 201 with an identifier, and a fetch
  by that identifier then returns 200 with the same seven field values, the salary being
  the number 50000 and the date of joining the date 2023-01-01 (midnight UTC,
  1672531200000 ms after the epoch). The premises on the library: its validators accept
  the seven values, \<^verbatim>\<open>Number\<close> and \<^verbatim>\<open>new Date\<close> read the two strings as these values, the
  identifier the driver generates is not in use, and the library accepts its string form
  and reads it back.
\<close>

theorem create_then_fetch:
  assumes first_name: "check L NotEmpty (JStr ''A'')"
    and last_name: "check L NotEmpty (JStr ''B'')"
    and email: "check L IsEmail (JStr ''a@b.com'')"
    and position: "check L NotEmpty (JStr ''Eng'')"
    and salary: "check L IsNumeric (JStr ''50000'')"
    and date_of_joining: "check L IsISO8601 (JStr ''2023-01-01'')"
    and department: "check L NotEmpty (JStr ''Tech'')"
    and number: "js_Number L (JStr ''50000'') = JNum 50000"
    and date: "js_Date L (JStr ''2023-01-01'') = JDate 1672531200000"
    and absent: "\<forall>(j, d)\<in>set (employees s). \<not> eq_match (JStr ''a@b.com'') (field d ''email'')"
    and fresh: "i \<notin> fst ` set (employees s)"
    and shape: "check L IsMongoId (JStr i)"
    and parse: "new_ObjectId L (JStr i) = Some i"
  shows "fst (post_employees L t1 t2 i \<lparr>body = round_trip_body, params = p, query = q\<rparr> s)
           = \<lparr>status = 201,
              json = JObj [(''message'', JStr ''Employee created successfully.''),
                           (''employee_id'', JStr i)]\<rparr>
       \<and> fst (get_employees_eid L \<lparr>body = b', params = [(''eid'', JStr i)], query = q'\<rparr>
                (snd (post_employees L t1 t2 i \<lparr>body = round_trip_body, params = p, query = q\<rparr> s)))
           = \<lparr>status = 200,
              json = JObj [(''employee_id'', JStr i),
                           (''first_name'', JStr ''A''),
                           (''last_name'', JStr ''B''),
                           (''email'', JStr ''a@b.com''),
                           (''position'', JStr ''Eng''),
                           (''salary'', JNum 50000),
                           (''date_of_joining'', JDate 1672531200000),
                           (''department'', JStr ''Tech'')]\<rparr>"
proof -
  let ?req = "\<lparr>body = round_trip_body, params = p, query = q\<rparr>"
  let ?new = "[(''first_name'', JStr ''A''), (''last_name'', JStr ''B''),
               (''email'', JStr ''a@b.com''), (''position'', JStr ''Eng''),
               (''salary'', JNum 50000), (''date_of_joining'', JDate 1672531200000),
               (''department'', JStr ''Tech''), (''created_at'', t1), (''updated_at'', t2)]"
  have valid: "validationResult L ?req validateEmployee = []"
    using first_name last_name email position salary date_of_joining department
    by (simp add: validationResult_def validateEmployee_def round_trip_body_def field_def)
  from absent
  have none: "find (\<lambda>(j, d). eq_match (JStr ''a@b.com'') (field d ''email'')) (employees s) = None"
    by (auto simp: find_None_iff)
  have created: "post_employees L t1 t2 i ?req s
      = (\<lparr>status = 201,
          json = JObj [(''message'', JStr ''Employee created successfully.''),
                       (''employee_id'', JStr i)]\<rparr>,
         logged (InsertOne Employees)
           (set_docs Employees (employees s @ [(i, ?new)]) (logged (FindOne Employees) s)))"
    using valid none fresh number date
    by (simp add: post_employees_def round_trip_body_def field_def findOne_def field_pred_def
        insertOne_def logged_def)
  from fresh have "map_of (employees s) i = None"
    by (simp add: map_of_eq_None_iff)
  then have stored: "map_of (employees s @ [(i, ?new)]) i = Some ?new"
    by (simp add: map_add_def)
  have "fst (get_employees_eid L \<lparr>body = b', params = [(''eid'', JStr i)], query = q'\<rparr>
               (snd (post_employees L t1 t2 i ?req s)))
      = \<lparr>status = 200, json = formattedEmployee i ?new\<rparr>"
    using shape parse stored
    by (simp add: created get_employees_eid_def validationResult_def validateObjectId_def
        findOne_by_id logged_def field_def)
  then show ?thesis
    by (simp add: created formattedEmployee_def field_def)
qed

theorem create_then_fetch_witness:
  "find (\<lambda>(j, d). eq_match (JStr ''a@b.com'') (field d ''email'')) (employees sample_db) = None
   \<and> new_id \<notin> fst ` set (employees sample_db)
   \<and> js_Number sample_library (JStr ''50000'') = JNum 50000
   \<and> js_Date sample_library (JStr ''2023-01-01'') = JDate 1672531200000
   \<and> fst (post_employees sample_library (JDate 1700000000001) (JDate 1700000000002) new_id
             \<lparr>body = round_trip_body, params = [], query = []\<rparr> sample_db)
       = \<lparr>status = 201,
          json = JObj [(''message'', JStr ''Employee created successfully.''),
                       (''employee_id'', JStr new_id)]\<rparr>
   \<and> fst (get_employees_eid sample_library
             \<lparr>body = [], params = [(''eid'', JStr new_id)], query = []\<rparr>
             (snd (post_employees sample_library (JDate 1700000000001) (JDate 1700000000002)
                     new_id \<lparr>body = round_trip_body, params = [], query = []\<rparr> sample_db)))
       = \<lparr>status = 200,
          json = JObj [(''employee_id'', JStr new_id),
                       (''first_name'', JStr ''A''),
                       (''last_name'', JStr ''B''),
                       (''email'', JStr ''a@b.com''),
                       (''position'', JStr ''Eng''),
                       (''salary'', JNum 50000),
                       (''date_of_joining'', JDate 1672531200000),
                       (''department'', JStr ''Tech'')]\<rparr>"
proof -
  have first_name: "check sample_library NotEmpty (JStr ''A'')"
    and last_name: "check sample_library NotEmpty (JStr ''B'')"
    and position: "check sample_library NotEmpty (JStr ''Eng'')"
    and department: "check sample_library NotEmpty (JStr ''Tech'')"
    by (simp_all add: sample_library_def)
  have email: "check sample_library IsEmail (JStr ''a@b.com'')"
    by (simp add: sample_library_def sample_email_def)
  have salary: "check sample_library IsNumeric (JStr ''50000'')"
    by (simp add: sample_library_def is_digit_def)
  have date_of_joining: "check sample_library IsISO8601 (JStr ''2023-01-01'')"
    by (simp add: sample_library_def sample_iso_date_def is_digit_def)
  have number: "js_Number sample_library (JStr ''50000'') = JNum 50000"
    by (simp add: sample_library_def is_digit_def decimal_def)
  have date: "js_Date sample_library (JStr ''2023-01-01'') = JDate 1672531200000"
    by (simp add: sample_library_def sample_iso_date_def is_digit_def decimal_def
        days_from_civil_def)
  have absent: "\<forall>(j, d)\<in>set (employees sample_db).
                  \<not> eq_match (JStr ''a@b.com'') (field d ''email'')"
    by (simp add: sample_db_def ann_def bob_def field_def eq_match_def nullish_def)
  have fresh: "new_id \<notin> fst ` set (employees sample_db)"
    by (simp add: sample_db_def new_id_def ann_id_def bob_id_def)
  have shape: "check sample_library IsMongoId (JStr new_id)"
    by (simp add: sample_library_def new_id_def is_hex_def sample_hexadecimal_def)
  have parse: "new_ObjectId sample_library (JStr new_id) = Some new_id"
    by (simp add: sample_library_def new_id_def is_hex_def sample_hexadecimal_def)
  from absent
  have none: "find (\<lambda>(j, d). eq_match (JStr ''a@b.com'') (field d ''email''))
                (employees sample_db) = None"
    by (auto simp: find_None_iff)
  from create_then_fetch [OF first_name last_name email position salary date_of_joining
      department number date absent fresh shape parse,
      of "JDate 1700000000001" "JDate 1700000000002" "[]" "[]" "[]" "[]"]
    none fresh number date
  show ?thesis by simp
qed

end
